theory Spec2Isabelle
  imports Complex_Main
begin

section \<open>Arrays, typed pointers, kernels and events\<close>

text \<open>
  The Python entry points of \<^verbatim>\<open>_kmeans_lloyd.cpp\<close> receive \<^verbatim>\<open>dpctl::tensor::usm_ndarray\<close>
  arguments, validate them, dispatch one templated kernel on the element types and
  return a pair of events. An array is modelled by what the entry points read from it:
  its allocation, its shape, its element type number, whether it is C-contiguous and
  the queue it was allocated on.
\<close>

datatype typenum = UAR_FLOAT | UAR_DOUBLE | UAR_INT32 | UAR_INT64 | UAR_OTHER nat

type_synonym queue = nat

record usm_ndarray =
  arr_data :: nat
  arr_shape :: "nat list"
  arr_typenum :: typenum
  arr_c_contiguous :: bool
  arr_queue :: queue

definition get_ndim :: "usm_ndarray \<Rightarrow> nat" where
  "get_ndim a = length (arr_shape a)"

definition get_shape :: "usm_ndarray \<Rightarrow> nat \<Rightarrow> nat" where
  "get_shape a i = arr_shape a ! i"

definition get_size :: "usm_ndarray \<Rightarrow> nat" where
  "get_size a = prod_list (arr_shape a)"

definition get_typenum :: "usm_ndarray \<Rightarrow> typenum" where
  "get_typenum a = arr_typenum a"

definition get_queue :: "usm_ndarray \<Rightarrow> queue" where
  "get_queue a = arr_queue a"

definition is_c_contiguous :: "usm_ndarray \<Rightarrow> bool" where
  "is_c_contiguous a = arr_c_contiguous a"

text \<open>
  \<^verbatim>\<open>all_c_contiguous\<close>: the loop stops at the first array that is not contiguous.
\<close>

fun all_c_contiguous :: "usm_ndarray list \<Rightarrow> bool" where
  "all_c_contiguous [] = True"
| "all_c_contiguous (a # as) = (if is_c_contiguous a then all_c_contiguous as else False)"

text \<open>
  \<^verbatim>\<open>dpctl::utils::queues_are_compatible\<close> belongs to the dpctl library: the execution
  queue must be the queue of every allocation.
\<close>

fun queues_are_compatible :: "queue \<Rightarrow> queue list \<Rightarrow> bool" where
  "queues_are_compatible q [] = True"
| "queues_are_compatible q (p # ps) = (if q = p then queues_are_compatible q ps else False)"

text \<open>
  The C element types of the kernel instantiations, and \<^verbatim>\<open>get_data<T>()\<close>: a pointer
  to the allocation, typed by the template argument and not by the array's own type
  number.
\<close>

datatype ctype = C_float | C_double | C_int32 | C_int64

datatype pointer = Ptr nat ctype

definition get_data :: "ctype \<Rightarrow> usm_ndarray \<Rightarrow> pointer" where
  "get_data T a = Ptr (arr_data a) T"

text \<open>
  \<^verbatim>\<open>static_cast<indT>(n_clusters)\<close>: the two's complement value of the given width.
\<close>

definition cast_indT :: "ctype \<Rightarrow> nat \<Rightarrow> int" where
  "cast_indT T n =
     (if T = C_int32 then (int n + 2 ^ 31) mod 2 ^ 32 - 2 ^ 31
      else (int n + 2 ^ 63) mod 2 ^ 64 - 2 ^ 63)"

text \<open>
  One constructor for each kernel template the entry points submit; the first arguments
  are the template's arguments (the element types, and for the last two the two
  multipliers), the rest the call's arguments in the source's order (the queue and the
  dependencies are kept in the event).
\<close>

datatype kernel =
    Broadcast_division_kernel ctype nat nat nat pointer pointer
  | Half_l2_norm_kernel ctype nat nat nat pointer pointer
  | Reduce_centroid_data_kernel ctype ctype nat nat nat nat
      pointer pointer pointer pointer pointer pointer
  | Compute_threshold_kernel ctype nat pointer nat pointer
  | Select_samples_far_from_centroid_kernel ctype ctype nat nat nat
      pointer pointer pointer pointer pointer
  | Relocate_empty_clusters ctype ctype nat nat int nat nat
      pointer pointer pointer pointer pointer pointer pointer pointer
  | Compute_centroid_shifts_squared_kernel ctype nat nat nat pointer pointer pointer
  | Compute_distances ctype nat nat nat nat nat nat nat pointer pointer pointer
  | Assignment ctype ctype nat nat nat nat nat nat nat pointer pointer pointer pointer

text \<open>
  An event is the default-constructed \<^verbatim>\<open>sycl::event{}\<close> (already complete, bound to no
  work), the completion of a submitted kernel, or the host task of
  \<^verbatim>\<open>dpctl::utils::keep_args_alive\<close>, which holds a reference to each listed array
  until the events it depends on are complete.
\<close>

datatype event =
    Default_event
  | Kernel_event queue kernel "event list"
  | Host_task_event queue "usm_ndarray list" "event list"

definition keep_args_alive :: "queue \<Rightarrow> usm_ndarray list \<Rightarrow> event list \<Rightarrow> event" where
  "keep_args_alive q args depends = Host_task_event q args depends"

datatype error = value_error string

type_synonym result = "error + event \<times> event"

section \<open>The entry points\<close>

definition py_broadcast_divide ::
  "usm_ndarray \<Rightarrow> usm_ndarray \<Rightarrow> queue \<Rightarrow> event list \<Rightarrow> result" where
  "py_broadcast_divide X y q depends =
    (let X_ndim = get_ndim X; y_ndim = get_ndim y in
     if X_ndim \<noteq> 2 \<or> y_ndim \<noteq> 1 \<or> \<not> all_c_contiguous [X, y] then
       Inl (value_error ''Arguments must be a matrix and a vector with C-contiguous layout'')
     else if get_shape y 0 \<noteq> get_shape X 1 then
       Inl (value_error ''Array dimensions of arguments are not consistent, X.shape[1] != y.shape[0]'')
     else if \<not> queues_are_compatible q [get_queue X, get_queue y] then
       Inl (value_error ''Execution queue is not compatible with allocation queues'')
     else
       let y_typenum = get_typenum y in
       if get_typenum X \<noteq> y_typenum then
         Inl (value_error ''Arguments must have the same elemental data types.'')
       else if y_typenum = UAR_FLOAT then
         (let comp_ev = Kernel_event q (Broadcast_division_kernel C_float
                (get_shape X 0) (get_shape X 1) 32
                (get_data C_float X) (get_data C_float y)) depends
          in Inr (keep_args_alive q [X, y] [comp_ev], comp_ev))
       else if y_typenum = UAR_DOUBLE then
         (let comp_ev = Kernel_event q (Broadcast_division_kernel C_double
                (get_shape X 0) (get_shape X 1) 32
                (get_data C_double X) (get_data C_double y)) depends
          in Inr (keep_args_alive q [X, y] [comp_ev], comp_ev))
       else
         Inl (value_error ''Unsupported elemental data type. Expecting single or double precision floating point numbers''))"

definition py_half_l2_norm_squared ::
  "usm_ndarray \<Rightarrow> usm_ndarray \<Rightarrow> queue \<Rightarrow> event list \<Rightarrow> result" where
  "py_half_l2_norm_squared X y q depends =
    (let X_ndim = get_ndim X; y_ndim = get_ndim y in
     if X_ndim \<noteq> 2 \<or> y_ndim \<noteq> 1 \<or> \<not> all_c_contiguous [X, y] then
       Inl (value_error ''Arguments must be a matrix and a vector with C-contiguous layout'')
     else if get_shape y 0 \<noteq> get_shape X 1 then
       Inl (value_error ''Array dimensions of arguments are not consistent, X.shape[1] != y.shape[0]'')
     else if \<not> queues_are_compatible q [get_queue X, get_queue y] then
       Inl (value_error ''Execution queue is not compatible with allocation queues'')
     else
       let y_typenum = get_typenum y in
       if get_typenum X \<noteq> y_typenum then
         Inl (value_error ''Arguments must have the same elemental data types.'')
       else if y_typenum = UAR_FLOAT then
         (let comp_ev = Kernel_event q (Half_l2_norm_kernel C_float
                (get_shape X 0) (get_shape X 1) 32
                (get_data C_float X) (get_data C_float y)) depends
          in Inr (keep_args_alive q [X, y] [comp_ev], comp_ev))
       else if y_typenum = UAR_DOUBLE then
         (let comp_ev = Kernel_event q (Half_l2_norm_kernel C_double
                (get_shape X 0) (get_shape X 1) 32
                (get_data C_double X) (get_data C_double y)) depends
          in Inr (keep_args_alive q [X, y] [comp_ev], comp_ev))
       else
         Inl (value_error ''Unsupported elemental data type. Expecting single or double precision floating point numbers''))"

definition py_compute_threshold ::
  "usm_ndarray \<Rightarrow> nat \<Rightarrow> usm_ndarray \<Rightarrow> queue \<Rightarrow> event list \<Rightarrow> result" where
  "py_compute_threshold data topk threshold q depends =
    (if get_ndim data \<noteq> 1 \<or> \<not> all_c_contiguous [data, threshold] then
       Inl (value_error ''Argument data must be a C-contiguous vector'')
     else if get_size threshold \<noteq> 1 then
       Inl (value_error ''Argument threshold must be 1-element array'')
     else
       let data_typenum = get_typenum data in
       if data_typenum \<noteq> get_typenum threshold then
         Inl (value_error ''Data types of arguments must be the same'')
       else if \<not> queues_are_compatible q [get_queue data, get_queue threshold] then
         Inl (value_error ''Execution queue is not compatible with allocation queues'')
       else
         let n_samples = get_shape data 0 in
         if topk = 0 then
           (let e1 = Default_event; e2 = Default_event in Inr (e1, e2))
         else if data_typenum = UAR_FLOAT then
           (let comp_ev = Kernel_event q (Compute_threshold_kernel C_float
                  n_samples (get_data C_float data) topk
                  (get_data C_float threshold)) depends
            in Inr (keep_args_alive q [data, threshold] [comp_ev], comp_ev))
         else if data_typenum = UAR_DOUBLE then
           (let comp_ev = Kernel_event q (Compute_threshold_kernel C_float
                  n_samples (get_data C_float data) topk
                  (get_data C_float threshold)) depends
            in Inr (keep_args_alive q [data, threshold] [comp_ev], comp_ev))
         else
           Inl (value_error ''Unsupported elemental data type. Expect single- or double- floating-point types.''))"

definition py_reduce_centroids_data ::
  "usm_ndarray \<Rightarrow> usm_ndarray \<Rightarrow> usm_ndarray \<Rightarrow> usm_ndarray \<Rightarrow> usm_ndarray \<Rightarrow>
   usm_ndarray \<Rightarrow> queue \<Rightarrow> event list \<Rightarrow> result" where
  "py_reduce_centroids_data cluster_sizes_private_copies centroids_t_private_copies
     out_cluster_sizes out_centroids_t out_empty_clusters_list out_n_empty_clusters
     q depends =
    (if get_ndim cluster_sizes_private_copies \<noteq> 2 \<or>
        get_ndim centroids_t_private_copies \<noteq> 3 \<or>
        get_ndim out_cluster_sizes \<noteq> 1 \<or>
        get_ndim out_centroids_t \<noteq> 2 \<or>
        get_ndim out_empty_clusters_list \<noteq> 1 \<or>
        get_size out_n_empty_clusters \<noteq> 1 then
       Inl (value_error ''Array dimensions of inputs are not consistent'')
     else
       let n_copies = get_shape cluster_sizes_private_copies 0;
           n_clusters = get_shape cluster_sizes_private_copies 1;
           n_features = get_shape centroids_t_private_copies 1 in
       if n_copies \<noteq> get_shape centroids_t_private_copies 0 \<or>
          n_clusters \<noteq> get_shape centroids_t_private_copies 2 \<or>
          n_clusters \<noteq> get_shape out_cluster_sizes 0 \<or>
          n_clusters \<noteq> get_shape out_centroids_t 1 \<or>
          n_features \<noteq> get_shape out_centroids_t 0 \<or>
          n_clusters \<noteq> get_shape out_empty_clusters_list 0 then
         Inl (value_error ''Dimensions mismatch'')
       else
         let dataT_typenum = get_typenum cluster_sizes_private_copies;
             indT_typenum = get_typenum out_n_empty_clusters in
         if dataT_typenum \<noteq> get_typenum centroids_t_private_copies \<or>
            dataT_typenum \<noteq> get_typenum out_cluster_sizes \<or>
            dataT_typenum \<noteq> get_typenum out_centroids_t \<or>
            indT_typenum \<noteq> get_typenum out_empty_clusters_list then
           Inl (value_error ''Array element data types must be consisten'')
         else if \<not> all_c_contiguous
             [cluster_sizes_private_copies, centroids_t_private_copies,
              out_cluster_sizes, out_centroids_t, out_empty_clusters_list,
              out_n_empty_clusters] then
           Inl (value_error ''All array arguments must be C-contiguous'')
         else if \<not> queues_are_compatible q
             [get_queue cluster_sizes_private_copies,
              get_queue centroids_t_private_copies,
              get_queue out_cluster_sizes,
              get_queue out_centroids_t,
              get_queue out_empty_clusters_list,
              get_queue out_n_empty_clusters] then
           Inl (value_error ''Execution queue is not compatible with allocation queues'')
         else
           let work_group_size = 256 in
           if dataT_typenum = UAR_FLOAT \<and> indT_typenum = UAR_INT32 then
           (let comp_ev = Kernel_event q (Reduce_centroid_data_kernel C_float C_int32
                  n_copies n_features n_clusters work_group_size
                  (get_data C_float cluster_sizes_private_copies)
                  (get_data C_float centroids_t_private_copies)
                  (get_data C_float out_cluster_sizes)
                  (get_data C_float out_centroids_t)
                  (get_data C_int32 out_empty_clusters_list)
                  (get_data C_int32 out_n_empty_clusters)) depends
            in Inr (keep_args_alive q
                  [cluster_sizes_private_copies, centroids_t_private_copies,
                   out_cluster_sizes, out_centroids_t, out_empty_clusters_list,
                   out_n_empty_clusters] [comp_ev], comp_ev))
           else if dataT_typenum = UAR_FLOAT \<and> indT_typenum = UAR_INT64 then
           (let comp_ev = Kernel_event q (Reduce_centroid_data_kernel C_float C_int64
                  n_copies n_features n_clusters work_group_size
                  (get_data C_float cluster_sizes_private_copies)
                  (get_data C_float centroids_t_private_copies)
                  (get_data C_float out_cluster_sizes)
                  (get_data C_float out_centroids_t)
                  (get_data C_int64 out_empty_clusters_list)
                  (get_data C_int64 out_n_empty_clusters)) depends
            in Inr (keep_args_alive q
                  [cluster_sizes_private_copies, centroids_t_private_copies,
                   out_cluster_sizes, out_centroids_t, out_empty_clusters_list,
                   out_n_empty_clusters] [comp_ev], comp_ev))
           else if dataT_typenum = UAR_DOUBLE \<and> indT_typenum = UAR_INT32 then
           (let comp_ev = Kernel_event q (Reduce_centroid_data_kernel C_double C_int32
                  n_copies n_features n_clusters work_group_size
                  (get_data C_double cluster_sizes_private_copies)
                  (get_data C_double centroids_t_private_copies)
                  (get_data C_double out_cluster_sizes)
                  (get_data C_double out_centroids_t)
                  (get_data C_int32 out_empty_clusters_list)
                  (get_data C_int32 out_n_empty_clusters)) depends
            in Inr (keep_args_alive q
                  [cluster_sizes_private_copies, centroids_t_private_copies,
                   out_cluster_sizes, out_centroids_t, out_empty_clusters_list,
                   out_n_empty_clusters] [comp_ev], comp_ev))
           else if dataT_typenum = UAR_DOUBLE \<and> indT_typenum = UAR_INT64 then
           (let comp_ev = Kernel_event q (Reduce_centroid_data_kernel C_double C_int64
                  n_copies n_features n_clusters work_group_size
                  (get_data C_double cluster_sizes_private_copies)
                  (get_data C_double centroids_t_private_copies)
                  (get_data C_double out_cluster_sizes)
                  (get_data C_double out_centroids_t)
                  (get_data C_int64 out_empty_clusters_list)
                  (get_data C_int64 out_n_empty_clusters)) depends
            in Inr (keep_args_alive q
                  [cluster_sizes_private_copies, centroids_t_private_copies,
                   out_cluster_sizes, out_centroids_t, out_empty_clusters_list,
                   out_n_empty_clusters] [comp_ev], comp_ev))
           else
             Inl (value_error ''Unsupported data types''))"

text \<open>
  \<^verbatim>\<open>static_cast<size_t>(n_samples) < n_selected\<close> and
  \<^verbatim>\<open>get_shape(0) < static_cast<py::ssize_t>(n_selected)\<close>: a shape is never negative,
  and the second comparison is reached only with \<^verbatim>\<open>n_selected\<close> at most
  \<^verbatim>\<open>n_samples\<close>, so both casts keep the value and the comparisons are those of the
  natural numbers.
\<close>

definition py_select_samples_far_from_centroid ::
  "nat \<Rightarrow> usm_ndarray \<Rightarrow> usm_ndarray \<Rightarrow> usm_ndarray \<Rightarrow> usm_ndarray \<Rightarrow> usm_ndarray \<Rightarrow>
   queue \<Rightarrow> event list \<Rightarrow> result" where
  "py_select_samples_far_from_centroid n_selected distance_to_centroid threshold
     selected_samples_idx n_selected_gt_threshold n_selected_eq_threshold q depends =
    (if n_selected = 0 then
       Inl (value_error ''Argument `n_selected` must be positive'')
     else if get_ndim distance_to_centroid \<noteq> 1 \<or> get_ndim selected_samples_idx \<noteq> 1 \<or>
        get_size threshold \<noteq> 1 \<or> get_size n_selected_gt_threshold \<noteq> 1 \<or>
        get_size n_selected_eq_threshold \<noteq> 1 then
       Inl (value_error ''Array dimensionalities are not consistent'')
     else
       let n_samples = get_shape distance_to_centroid 0 in
       if n_samples < n_selected then
         Inl (value_error ''Argument `n_select` is too large'')
       else if get_shape selected_samples_idx 0 < n_selected then
         Inl (value_error ''Vector `selected_samples_idx` must have size of at least `n_selected` elements'')
       else if \<not> all_c_contiguous [distance_to_centroid, selected_samples_idx] then
         Inl (value_error ''Arrays must be C-contiguous'')
       else
         let dataT_typenum = get_typenum distance_to_centroid in
         if dataT_typenum \<noteq> get_typenum threshold then
           Inl (value_error ''Input arrays must have the same elemental data type'')
         else
           let indT_typenum = get_typenum selected_samples_idx in
           if indT_typenum \<noteq> get_typenum n_selected_gt_threshold \<or>
              indT_typenum \<noteq> get_typenum n_selected_eq_threshold then
             Inl (value_error ''Output array must have the same elemental data type'')
           else if \<not> queues_are_compatible q
               [get_queue distance_to_centroid, get_queue threshold,
                get_queue selected_samples_idx, get_queue n_selected_gt_threshold,
                get_queue n_selected_eq_threshold] then
             Inl (value_error ''Execution queue is not compatible with allocation queues'')
           else
             let work_group_size = 64 in
             if dataT_typenum = UAR_FLOAT \<and> indT_typenum = UAR_INT32 then
           (let comp_ev = Kernel_event q (Select_samples_far_from_centroid_kernel C_float C_int32
                  n_selected n_samples work_group_size
                  (get_data C_float distance_to_centroid) (get_data C_float threshold)
                  (get_data C_int32 selected_samples_idx)
                  (get_data C_int32 n_selected_gt_threshold)
                  (get_data C_int32 n_selected_eq_threshold)) depends
            in Inr (keep_args_alive q
                  [distance_to_centroid, threshold, selected_samples_idx,
                   n_selected_gt_threshold, n_selected_eq_threshold] [comp_ev], comp_ev))
             else if dataT_typenum = UAR_DOUBLE \<and> indT_typenum = UAR_INT32 then
           (let comp_ev = Kernel_event q (Select_samples_far_from_centroid_kernel C_double C_int32
                  n_selected n_samples work_group_size
                  (get_data C_double distance_to_centroid) (get_data C_double threshold)
                  (get_data C_int32 selected_samples_idx)
                  (get_data C_int32 n_selected_gt_threshold)
                  (get_data C_int32 n_selected_eq_threshold)) depends
            in Inr (keep_args_alive q
                  [distance_to_centroid, threshold, selected_samples_idx,
                   n_selected_gt_threshold, n_selected_eq_threshold] [comp_ev], comp_ev))
             else if dataT_typenum = UAR_FLOAT \<and> indT_typenum = UAR_INT64 then
           (let comp_ev = Kernel_event q (Select_samples_far_from_centroid_kernel C_float C_int64
                  n_selected n_samples work_group_size
                  (get_data C_float distance_to_centroid) (get_data C_float threshold)
                  (get_data C_int64 selected_samples_idx)
                  (get_data C_int64 n_selected_gt_threshold)
                  (get_data C_int64 n_selected_eq_threshold)) depends
            in Inr (keep_args_alive q
                  [distance_to_centroid, threshold, selected_samples_idx,
                   n_selected_gt_threshold, n_selected_eq_threshold] [comp_ev], comp_ev))
             else if dataT_typenum = UAR_DOUBLE \<and> indT_typenum = UAR_INT64 then
           (let comp_ev = Kernel_event q (Select_samples_far_from_centroid_kernel C_double C_int64
                  n_selected n_samples work_group_size
                  (get_data C_double distance_to_centroid) (get_data C_double threshold)
                  (get_data C_int64 selected_samples_idx)
                  (get_data C_int64 n_selected_gt_threshold)
                  (get_data C_int64 n_selected_eq_threshold)) depends
            in Inr (keep_args_alive q
                  [distance_to_centroid, threshold, selected_samples_idx,
                   n_selected_gt_threshold, n_selected_eq_threshold] [comp_ev], comp_ev))
             else
               Inl (value_error ''Unsupported data types''))"

definition py_relocate_empty_clusters ::
  "nat \<Rightarrow> usm_ndarray \<Rightarrow> usm_ndarray \<Rightarrow> usm_ndarray \<Rightarrow> usm_ndarray \<Rightarrow> usm_ndarray \<Rightarrow>
   usm_ndarray \<Rightarrow> usm_ndarray \<Rightarrow> usm_ndarray \<Rightarrow> queue \<Rightarrow> event list \<Rightarrow> result" where
  "py_relocate_empty_clusters n_empty_clusters X_t sample_weights assignment_id
     empty_clusters_list sq_dist_to_nearest_centroid centroid_t cluster_sizes
     per_sample_inertia q depends =
    (if 2 \<noteq> get_ndim X_t \<or> 1 \<noteq> get_ndim sample_weights \<or>
        1 \<noteq> get_ndim assignment_id \<or>
        1 \<noteq> get_ndim empty_clusters_list \<or>
        1 \<noteq> get_ndim sq_dist_to_nearest_centroid \<or>
        2 \<noteq> get_ndim centroid_t \<or>
        1 \<noteq> get_ndim cluster_sizes \<or>
        1 \<noteq> get_ndim per_sample_inertia then
       Inl (value_error ''Arguments have inconsistent array dimensionality.'')
     else if \<not> all_c_contiguous
         [X_t, sample_weights, assignment_id, empty_clusters_list,
          sq_dist_to_nearest_centroid, centroid_t, cluster_sizes, per_sample_inertia] then
       Inl (value_error ''Inputs must be C-contiguous'')
     else
       let n_samples = get_shape X_t 1;
           n_features = get_shape X_t 0;
           n_clusters = get_shape empty_clusters_list 0 in
       if n_samples \<noteq> get_shape sample_weights 0 \<or>
          n_samples \<noteq> get_shape assignment_id 0 \<or>
          n_samples \<noteq> get_shape sq_dist_to_nearest_centroid 0 \<or>
          n_clusters \<noteq> get_shape centroid_t 1 \<or>
          n_features \<noteq> get_shape centroid_t 0 \<or>
          n_clusters \<noteq> get_shape cluster_sizes 0 \<or>
          n_samples \<noteq> get_shape per_sample_inertia 0 then
         Inl (value_error ''Input dimensions are inconsistent'')
       else if n_empty_clusters = 0 then
         Inl (value_error ''n_empty_clusters must be non-zero.'')
       else if \<not> queues_are_compatible q
           [get_queue X_t, get_queue sample_weights,
            get_queue assignment_id, get_queue empty_clusters_list,
            get_queue sq_dist_to_nearest_centroid, get_queue centroid_t,
            get_queue cluster_sizes, get_queue per_sample_inertia] then
         Inl (value_error ''Execution queue is not compatible with allocation queues.'')
       else
         let dataT_typenum = get_typenum X_t;
             indT_typenum = get_typenum assignment_id in
         if dataT_typenum \<noteq> get_typenum sample_weights \<or>
            indT_typenum \<noteq> get_typenum empty_clusters_list \<or>
            dataT_typenum \<noteq> get_typenum sq_dist_to_nearest_centroid \<or>
            dataT_typenum \<noteq> get_typenum centroid_t \<or>
            dataT_typenum \<noteq> get_typenum cluster_sizes \<or>
            dataT_typenum \<noteq> get_typenum per_sample_inertia then
           Inl (value_error ''Inconsistent array elemental data types'')
         else
           let work_group_size = 64 in
           if dataT_typenum = UAR_FLOAT \<and> indT_typenum = UAR_INT32 then
           (let comp_ev = Kernel_event q (Relocate_empty_clusters C_float C_int32
                  n_samples n_features (cast_indT C_int32 n_clusters) work_group_size
                  n_empty_clusters (get_data C_float X_t) (get_data C_float sample_weights)
                  (get_data C_int32 assignment_id) (get_data C_int32 empty_clusters_list)
                  (get_data C_float sq_dist_to_nearest_centroid)
                  (get_data C_float centroid_t) (get_data C_float cluster_sizes)
                  (get_data C_float per_sample_inertia)) depends
            in Inr (keep_args_alive q
                  [X_t, sample_weights, assignment_id, empty_clusters_list,
                   sq_dist_to_nearest_centroid, centroid_t, cluster_sizes] [comp_ev],
                  comp_ev))
           else if dataT_typenum = UAR_FLOAT \<and> indT_typenum = UAR_INT64 then
           (let comp_ev = Kernel_event q (Relocate_empty_clusters C_float C_int64
                  n_samples n_features (cast_indT C_int64 n_clusters) work_group_size
                  n_empty_clusters (get_data C_float X_t) (get_data C_float sample_weights)
                  (get_data C_int64 assignment_id) (get_data C_int64 empty_clusters_list)
                  (get_data C_float sq_dist_to_nearest_centroid)
                  (get_data C_float centroid_t) (get_data C_float cluster_sizes)
                  (get_data C_float per_sample_inertia)) depends
            in Inr (keep_args_alive q
                  [X_t, sample_weights, assignment_id, empty_clusters_list,
                   sq_dist_to_nearest_centroid, centroid_t, cluster_sizes] [comp_ev],
                  comp_ev))
           else if dataT_typenum = UAR_DOUBLE \<and> indT_typenum = UAR_INT32 then
           (let comp_ev = Kernel_event q (Relocate_empty_clusters C_double C_int32
                  n_samples n_features (cast_indT C_int32 n_clusters) work_group_size
                  n_empty_clusters (get_data C_double X_t) (get_data C_double sample_weights)
                  (get_data C_int32 assignment_id) (get_data C_int32 empty_clusters_list)
                  (get_data C_double sq_dist_to_nearest_centroid)
                  (get_data C_double centroid_t) (get_data C_double cluster_sizes)
                  (get_data C_double per_sample_inertia)) depends
            in Inr (keep_args_alive q
                  [X_t, sample_weights, assignment_id, empty_clusters_list,
                   sq_dist_to_nearest_centroid, centroid_t, cluster_sizes] [comp_ev],
                  comp_ev))
           else if dataT_typenum = UAR_DOUBLE \<and> indT_typenum = UAR_INT64 then
           (let comp_ev = Kernel_event q (Relocate_empty_clusters C_double C_int64
                  n_samples n_features (cast_indT C_int64 n_clusters) work_group_size
                  n_empty_clusters (get_data C_double X_t) (get_data C_double sample_weights)
                  (get_data C_int64 assignment_id) (get_data C_int64 empty_clusters_list)
                  (get_data C_double sq_dist_to_nearest_centroid)
                  (get_data C_double centroid_t) (get_data C_double cluster_sizes)
                  (get_data C_double per_sample_inertia)) depends
            in Inr (keep_args_alive q
                  [X_t, sample_weights, assignment_id, empty_clusters_list,
                   sq_dist_to_nearest_centroid, centroid_t, cluster_sizes] [comp_ev],
                  comp_ev))
           else
             Inl (value_error ''Unsupported data types''))"

definition py_compute_centroid_shifts_squared_kernel ::
  "usm_ndarray \<Rightarrow> usm_ndarray \<Rightarrow> usm_ndarray \<Rightarrow> queue \<Rightarrow> event list \<Rightarrow> result" where
  "py_compute_centroid_shifts_squared_kernel old_centroid_t new_centroid_t
     centroid_shifts q depends =
    (if 2 \<noteq> get_ndim new_centroid_t \<or>
        2 \<noteq> get_ndim old_centroid_t \<or>
        1 \<noteq> get_ndim centroid_shifts then
       Inl (value_error ''Input dimensionalities are not consistent.'')
     else
       let n_features = get_shape old_centroid_t 0;
           n_clusters = get_shape old_centroid_t 1 in
       if n_features \<noteq> get_shape new_centroid_t 0 \<or>
          n_clusters \<noteq> get_shape new_centroid_t 1 \<or>
          n_clusters \<noteq> get_shape centroid_shifts 0 then
         Inl (value_error ''Array dimensions are not consistent.'')
       else if \<not> all_c_contiguous [new_centroid_t, old_centroid_t, centroid_shifts] then
         Inl (value_error ''Arguments must be C-contiguous arrays'')
       else if \<not> queues_are_compatible q
           [get_queue new_centroid_t, get_queue old_centroid_t,
            get_queue centroid_shifts] then
         Inl (value_error ''Execution queue is not compatible with allocation queues'')
       else
         let typenum = get_typenum old_centroid_t in
         if typenum \<noteq> get_typenum new_centroid_t \<or>
            typenum \<noteq> get_typenum centroid_shifts then
           Inl (value_error ''All array arguments must have the same elemental data types'')
         else
           let work_group_size = 128 in
           if typenum = UAR_FLOAT then
           (let comp_ev = Kernel_event q (Compute_centroid_shifts_squared_kernel C_float
                  n_features n_clusters work_group_size
                  (get_data C_float old_centroid_t) (get_data C_float new_centroid_t)
                  (get_data C_float centroid_shifts)) depends
            in Inr (keep_args_alive q
                  [old_centroid_t, new_centroid_t, centroid_shifts] [comp_ev], comp_ev))
           else if typenum = UAR_DOUBLE then
           (let comp_ev = Kernel_event q (Compute_centroid_shifts_squared_kernel C_double
                  n_features n_clusters work_group_size
                  (get_data C_double old_centroid_t) (get_data C_double new_centroid_t)
                  (get_data C_double centroid_shifts)) depends
            in Inr (keep_args_alive q
                  [old_centroid_t, new_centroid_t, centroid_shifts] [comp_ev], comp_ev))
           else
             Inl (value_error ''Unsupported elemental data type.''))"

text \<open>
  \<^verbatim>\<open>py_compute_distances\<close> also prints the three comparisons to the standard output
  before it raises on inconsistent dimensions; the output stream is not modelled.
\<close>

definition py_compute_distances ::
  "usm_ndarray \<Rightarrow> usm_ndarray \<Rightarrow> usm_ndarray \<Rightarrow> nat \<Rightarrow> nat \<Rightarrow> queue \<Rightarrow> event list \<Rightarrow>
   result" where
  "py_compute_distances X_t centroid_t euclidean_distances_t work_group_size
     centroids_window_height q depends =
    (if 2 \<noteq> get_ndim X_t \<or> 2 \<noteq> get_ndim centroid_t \<or>
        2 \<noteq> get_ndim euclidean_distances_t then
       Inl (value_error ''Input arrays must have dimensionality 2.'')
     else if \<not> all_c_contiguous [X_t, centroid_t, euclidean_distances_t] then
       Inl (value_error ''Input arrays must be C-contiguous.'')
     else
       let n_features = get_shape X_t 0;
           n_samples = get_shape X_t 1;
           n_clusters = get_shape euclidean_distances_t 0 in
       if n_features \<noteq> get_shape centroid_t 0 \<or>
          n_clusters \<noteq> get_shape centroid_t 1 \<or>
          n_samples \<noteq> get_shape euclidean_distances_t 1 then
         Inl (value_error ''Input array dimensions are not consistant'')
       else if \<not> queues_are_compatible q
           [get_queue X_t, get_queue centroid_t, get_queue euclidean_distances_t] then
         Inl (value_error ''Execution queue is not compatible with allocation queues'')
       else
         let typenum = get_typenum X_t in
         if typenum \<noteq> get_typenum centroid_t \<or>
            typenum \<noteq> get_typenum euclidean_distances_t then
           Inl (value_error ''Arrays must have the same elemental data types'')
         else
           let preferred_work_group_size_multiplier = 8;
               centroids_window_width_multiplier = 4 in
           if typenum = UAR_FLOAT then
           (let comp_ev = Kernel_event q (Compute_distances C_float
                  preferred_work_group_size_multiplier centroids_window_width_multiplier
                  n_samples n_features n_clusters centroids_window_height work_group_size
                  (get_data C_float X_t) (get_data C_float centroid_t)
                  (get_data C_float euclidean_distances_t)) depends
            in Inr (keep_args_alive q
                  [X_t, centroid_t, euclidean_distances_t] [comp_ev], comp_ev))
         else if typenum = UAR_DOUBLE then
           (let comp_ev = Kernel_event q (Compute_distances C_double
                  preferred_work_group_size_multiplier centroids_window_width_multiplier
                  n_samples n_features n_clusters centroids_window_height work_group_size
                  (get_data C_double X_t) (get_data C_double centroid_t)
                  (get_data C_double euclidean_distances_t)) depends
            in Inr (keep_args_alive q
                  [X_t, centroid_t, euclidean_distances_t] [comp_ev], comp_ev))
           else
             Inl (value_error ''Unsupported elemental data type''))"

definition py_assignment ::
  "usm_ndarray \<Rightarrow> usm_ndarray \<Rightarrow> usm_ndarray \<Rightarrow> usm_ndarray \<Rightarrow> nat \<Rightarrow> nat \<Rightarrow> queue \<Rightarrow>
   event list \<Rightarrow> result" where
  "py_assignment X_t centroid_t centroids_half_l2_norm assignment_id
     centroids_window_height work_group_size q depends =
    (if 2 \<noteq> get_ndim X_t \<or> 2 \<noteq> get_ndim centroid_t \<or>
        1 \<noteq> get_ndim centroids_half_l2_norm \<or> 1 \<noteq> get_ndim assignment_id then
       Inl (value_error ''Inputs have unexpected dimensionality.'')
     else if \<not> all_c_contiguous
         [X_t, centroid_t, centroids_half_l2_norm, assignment_id] then
       Inl (value_error ''Inputs must be C-contiguous arrays.'')
     else
       let n_features = get_shape X_t 0;
           n_samples = get_shape X_t 1;
           n_clusters = get_shape centroids_half_l2_norm 0 in
       if n_features \<noteq> get_shape centroid_t 0 \<or>
          n_clusters \<noteq> get_shape centroid_t 1 \<or>
          n_samples \<noteq> get_shape assignment_id 0 then
         Inl (value_error ''Inputs have inconsistent dimensions.'')
       else if \<not> queues_are_compatible q
           [get_queue X_t, get_queue centroid_t,
            get_queue centroids_half_l2_norm, get_queue assignment_id] then
         Inl (value_error ''Execution queue is incompatible with allocation queues.'')
       else
         let dataT_typenum = get_typenum X_t;
             indT_typenum = get_typenum assignment_id in
         if dataT_typenum \<noteq> get_typenum centroid_t \<or>
            dataT_typenum \<noteq> get_typenum centroids_half_l2_norm then
           Inl (value_error ''Arrays have inconsistent elemental data types'')
         else
           let preferred_work_group_size_multiplier = 8;
               centroids_window_width_multiplier = 4 in
           if dataT_typenum = UAR_FLOAT \<and> indT_typenum = UAR_INT32 then
           (let comp_ev = Kernel_event q (Assignment C_float C_int32
                  preferred_work_group_size_multiplier centroids_window_width_multiplier
                  n_samples n_features n_clusters centroids_window_height work_group_size
                  (get_data C_float X_t) (get_data C_float centroid_t)
                  (get_data C_float centroids_half_l2_norm)
                  (get_data C_int32 assignment_id)) depends
            in Inr (keep_args_alive q
                  [X_t, centroid_t, centroids_half_l2_norm, assignment_id] [comp_ev],
                  comp_ev))
         else if dataT_typenum = UAR_DOUBLE \<and> indT_typenum = UAR_INT32 then
           (let comp_ev = Kernel_event q (Assignment C_double C_int32
                  preferred_work_group_size_multiplier centroids_window_width_multiplier
                  n_samples n_features n_clusters centroids_window_height work_group_size
                  (get_data C_double X_t) (get_data C_double centroid_t)
                  (get_data C_double centroids_half_l2_norm)
                  (get_data C_int32 assignment_id)) depends
            in Inr (keep_args_alive q
                  [X_t, centroid_t, centroids_half_l2_norm, assignment_id] [comp_ev],
                  comp_ev))
         else if dataT_typenum = UAR_FLOAT \<and> indT_typenum = UAR_INT64 then
           (let comp_ev = Kernel_event q (Assignment C_float C_int64
                  preferred_work_group_size_multiplier centroids_window_width_multiplier
                  n_samples n_features n_clusters centroids_window_height work_group_size
                  (get_data C_float X_t) (get_data C_float centroid_t)
                  (get_data C_float centroids_half_l2_norm)
                  (get_data C_int64 assignment_id)) depends
            in Inr (keep_args_alive q
                  [X_t, centroid_t, centroids_half_l2_norm, assignment_id] [comp_ev],
                  comp_ev))
         else if dataT_typenum = UAR_DOUBLE \<and> indT_typenum = UAR_INT64 then
           (let comp_ev = Kernel_event q (Assignment C_double C_int64
                  preferred_work_group_size_multiplier centroids_window_width_multiplier
                  n_samples n_features n_clusters centroids_window_height work_group_size
                  (get_data C_double X_t) (get_data C_double centroid_t)
                  (get_data C_double centroids_half_l2_norm)
                  (get_data C_int64 assignment_id)) depends
            in Inr (keep_args_alive q
                  [X_t, centroid_t, centroids_half_l2_norm, assignment_id] [comp_ev],
                  comp_ev))
           else
             Inl (value_error ''Unsupported array elemental data type''))"

section \<open>Device memory and the kernels\<close>

text \<open>
  The kernels are templates of \<^verbatim>\<open>util_kernels.hpp\<close>, which the entry points include.
  What they compute is described here over a memory of typed allocations. Floating
  point values are idealised as real numbers (comparisons are exact either way; sums are
  taken without rounding), and index values are kept as mathematical integers.
  A pointer reads an allocation only at the allocation's own element type: a read
  through a pointer of another type reinterprets the bytes, which has no value here.
\<close>

datatype buffer = Real_buffer ctype "real list" | Int_buffer ctype "int list"

type_synonym memory = "nat \<Rightarrow> buffer option"

fun read_reals :: "memory \<Rightarrow> pointer \<Rightarrow> real list option" where
  "read_reals m (Ptr a T) =
     (case m a of
        Some (Real_buffer T' xs) \<Rightarrow> if T' = T then Some xs else None
      | _ \<Rightarrow> None)"

fun read_ints :: "memory \<Rightarrow> pointer \<Rightarrow> int list option" where
  "read_ints m (Ptr a T) =
     (case m a of
        Some (Int_buffer T' xs) \<Rightarrow> if T' = T then Some xs else None
      | _ \<Rightarrow> None)"

fun write_reals :: "memory \<Rightarrow> pointer \<Rightarrow> real list \<Rightarrow> memory" where
  "write_reals m (Ptr a T) xs = m(a \<mapsto> Real_buffer T xs)"

fun write_ints :: "memory \<Rightarrow> pointer \<Rightarrow> int list \<Rightarrow> memory" where
  "write_ints m (Ptr a T) xs = m(a \<mapsto> Int_buffer T xs)"

text \<open>
  The contents of an array read at the element type its own type number names.
\<close>

definition array_reals :: "memory \<Rightarrow> usm_ndarray \<Rightarrow> real list option" where
  "array_reals m a =
     (if get_typenum a = UAR_FLOAT then read_reals m (get_data C_float a)
      else if get_typenum a = UAR_DOUBLE then read_reals m (get_data C_double a)
      else None)"

definition array_ints :: "memory \<Rightarrow> usm_ndarray \<Rightarrow> int list option" where
  "array_ints m a =
     (if get_typenum a = UAR_INT32 then read_ints m (get_data C_int32 a)
      else if get_typenum a = UAR_INT64 then read_ints m (get_data C_int64 a)
      else None)"

subsection \<open>Threshold discovery\<close>

text \<open>
  Modelled from the spec: \<^verbatim>\<open>compute_threshold_kernel\<close> of \<^verbatim>\<open>util_kernels.hpp\<close> is
  missing. The spec: it "finds the value of the topk-th largest element of the distance
  array (a partial order statistic, not a full sort) and writes it to a scalar". The
  selection takes the maximum out \<open>topk - 1\<close> times and returns the maximum of what is
  left; nothing is said for \<open>topk\<close> beyond the length, where no value is selected.
\<close>

fun kth_largest :: "nat \<Rightarrow> real list \<Rightarrow> real option" where
  "kth_largest k [] = None"
| "kth_largest 0 (x # xs) = None"
| "kth_largest (Suc 0) (x # xs) = Some (fold max xs x)"
| "kth_largest (Suc (Suc k)) (x # xs) =
     kth_largest (Suc k) (remove1 (fold max xs x) (x # xs))"

definition compute_threshold_kernel ::
  "nat \<Rightarrow> pointer \<Rightarrow> nat \<Rightarrow> pointer \<Rightarrow> memory \<Rightarrow> memory option" where
  "compute_threshold_kernel n_samples data topk threshold m =
     (case read_reals m data of None \<Rightarrow> None | Some xs \<Rightarrow>
      (case read_reals m threshold of None \<Rightarrow> None | Some ts \<Rightarrow>
        if length xs = n_samples \<and> length ts = 1 then
          (case kth_largest topk xs of None \<Rightarrow> None
           | Some v \<Rightarrow> Some (write_reals m threshold [v]))
        else None))"

subsection \<open>Reduction of the private copies\<close>

text \<open>
  Modelled from the spec: \<^verbatim>\<open>reduce_centroid_data_kernel\<close> of \<^verbatim>\<open>util_kernels.hpp\<close> is
  missing. The spec: it reduces the \<open>n_copies\<close> private copies "into: total per-cluster
  weight sums, total per-cluster coordinate sums, and a list of clusters whose total
  weight is exactly zero"; "the empty-cluster list is built by a compaction pass over
  the final per-cluster sums, counting zero-weight clusters into a scalar counter and
  writing their ids into a packed prefix of the output list". The arrays are
  C-contiguous, so entry \<open>j\<close> of copy \<open>c\<close> is at \<open>c * stride + j\<close>. The compaction visits
  the clusters in the order of their ids, one of the orders the spec allows.
\<close>

definition copies_sum :: "nat \<Rightarrow> nat \<Rightarrow> real list \<Rightarrow> nat \<Rightarrow> real" where
  "copies_sum n_copies stride xs j =
     sum_list (map (\<lambda>c. xs ! (c * stride + j)) [0..<n_copies])"

fun compact_empty :: "real list \<Rightarrow> nat list \<Rightarrow> int list \<Rightarrow> nat \<Rightarrow> int list \<times> nat" where
  "compact_empty sizes [] out n = (out, n)"
| "compact_empty sizes (k # ks) out n =
     (if sizes ! k = 0 then compact_empty sizes ks (out[n := int k]) (Suc n)
      else compact_empty sizes ks out n)"

definition reduce_centroid_data_kernel ::
  "nat \<Rightarrow> nat \<Rightarrow> nat \<Rightarrow> pointer \<Rightarrow> pointer \<Rightarrow> pointer \<Rightarrow> pointer \<Rightarrow> pointer \<Rightarrow> pointer \<Rightarrow>
   memory \<Rightarrow> memory option" where
  "reduce_centroid_data_kernel n_copies n_features n_clusters
     cluster_sizes_private_copies centroids_t_private_copies
     out_cluster_sizes out_centroids_t out_empty_clusters_list out_n_empty_clusters m =
     (case read_reals m cluster_sizes_private_copies of None \<Rightarrow> None | Some sizes \<Rightarrow>
      (case read_reals m centroids_t_private_copies of None \<Rightarrow> None | Some coord_sums \<Rightarrow>
      (case read_reals m out_cluster_sizes of None \<Rightarrow> None | Some old_sizes \<Rightarrow>
      (case read_reals m out_centroids_t of None \<Rightarrow> None | Some old_sums \<Rightarrow>
      (case read_ints m out_empty_clusters_list of None \<Rightarrow> None | Some old_list \<Rightarrow>
      (case read_ints m out_n_empty_clusters of None \<Rightarrow> None | Some old_count \<Rightarrow>
        if length sizes = n_copies * n_clusters \<and>
           length coord_sums = n_copies * (n_features * n_clusters) \<and>
           length old_sizes = n_clusters \<and>
           length old_sums = n_features * n_clusters \<and>
           length old_list = n_clusters \<and>
           length old_count = 1 then
          (let new_sizes = map (copies_sum n_copies n_clusters sizes) [0..<n_clusters];
               new_sums = map (copies_sum n_copies (n_features * n_clusters) coord_sums)
                            [0..<n_features * n_clusters];
               compacted = compact_empty new_sizes [0..<n_clusters] old_list 0
           in Some (write_ints
                     (write_ints
                       (write_reals
                         (write_reals m out_cluster_sizes new_sizes)
                         out_centroids_t new_sums)
                       out_empty_clusters_list (fst compacted))
                     out_n_empty_clusters [int (snd compacted)]))
        else None))))))"

subsection \<open>Selection of the far samples\<close>

text \<open>
  Modelled from the spec: \<^verbatim>\<open>select_samples_far_from_centroid_kernel\<close> of
  \<^verbatim>\<open>util_kernels.hpp\<close> is missing. The spec: it "partitions sample indices into those
  strictly greater than the threshold and those exactly equal to it, writing the
  strictly-greater indices first and using equal-to-threshold indices only to fill the
  remainder up to \<open>n_selected\<close>", "and reports counts of each category"; the design
  notes add "a stable partition keeping strictly-greater elements before equal ones,
  truncated to the requested count". The spec does not place the indices in the output;
  the docstring of the binding does: the output is populated with the ids above the
  threshold, and "the last element" with the id at the threshold. So the ids above the
  threshold are written from the first entry on, the ids at the threshold from the last
  entry backwards, and the entries in between keep their values.
\<close>

definition select_samples_far_from_centroid_kernel ::
  "nat \<Rightarrow> nat \<Rightarrow> pointer \<Rightarrow> pointer \<Rightarrow> pointer \<Rightarrow> pointer \<Rightarrow> pointer \<Rightarrow>
   memory \<Rightarrow> memory option" where
  "select_samples_far_from_centroid_kernel n_selected n_samples
     distance_to_centroid threshold selected_samples_idx
     n_selected_gt_threshold n_selected_eq_threshold m =
     (case read_reals m distance_to_centroid of None \<Rightarrow> None | Some ds \<Rightarrow>
      (case read_reals m threshold of None \<Rightarrow> None | Some ts \<Rightarrow>
      (case read_ints m selected_samples_idx of None \<Rightarrow> None | Some old_idx \<Rightarrow>
      (case read_ints m n_selected_gt_threshold of None \<Rightarrow> None | Some old_gt \<Rightarrow>
      (case read_ints m n_selected_eq_threshold of None \<Rightarrow> None | Some old_eq \<Rightarrow>
        if length ds = n_samples \<and> length ts = 1 \<and> n_selected \<le> length old_idx \<and>
           length old_gt = 1 \<and> length old_eq = 1 then
          (let t = ts ! 0;
               gt_idx = filter (\<lambda>i. t < ds ! i) [0..<n_samples];
               eq_idx = filter (\<lambda>i. ds ! i = t) [0..<n_samples];
               n_gt = min n_selected (length gt_idx);
               n_eq = min (n_selected - n_gt) (length eq_idx)
           in Some (write_ints
                     (write_ints
                       (write_ints m selected_samples_idx
                          (map int (take n_gt gt_idx) @
                           take (length old_idx - n_gt - n_eq) (drop n_gt old_idx) @
                           rev (map int (take n_eq eq_idx))))
                       n_selected_gt_threshold [int n_gt])
                     n_selected_eq_threshold [int n_eq]))
        else None)))))"

subsection \<open>Half squared norms\<close>

text \<open>
  Modelled from the spec: \<^verbatim>\<open>half_l2_norm_kernel\<close> of \<^verbatim>\<open>util_kernels.hpp\<close> is missing.
  The spec: "for each column of M, computes half the squared L2 norm, producing a
  vector sized to the column count". The matrix is C-contiguous: entry \<open>(i, j)\<close> is at
  \<open>i * n_cols + j\<close>.
\<close>

definition half_l2_norm_kernel ::
  "nat \<Rightarrow> nat \<Rightarrow> pointer \<Rightarrow> pointer \<Rightarrow> memory \<Rightarrow> memory option" where
  "half_l2_norm_kernel n_rows n_cols data dest m =
     (case read_reals m data of None \<Rightarrow> None | Some xs \<Rightarrow>
      (case read_reals m dest of None \<Rightarrow> None | Some ys \<Rightarrow>
        if length xs = n_rows * n_cols \<and> length ys = n_cols then
          Some (write_reals m dest
                  (map (\<lambda>j. sum_list (map (\<lambda>i. (xs ! (i * n_cols + j))\<^sup>2) [0..<n_rows]) / 2)
                     [0..<n_cols]))
        else None))"

subsection \<open>Completion of an event\<close>

text \<open>
  The memory once a submitted kernel has run, for the kernels described above; \<open>None\<close>
  where no result is described (another kernel, a read through a pointer of another
  element type, sizes that do not fit).
\<close>

fun run_kernel :: "kernel \<Rightarrow> memory \<Rightarrow> memory option" where
  "run_kernel (Half_l2_norm_kernel T n_rows n_cols wg data dest) m =
     half_l2_norm_kernel n_rows n_cols data dest m"
| "run_kernel (Reduce_centroid_data_kernel dataT indT n_copies n_features n_clusters wg
      p1 p2 p3 p4 p5 p6) m =
     reduce_centroid_data_kernel n_copies n_features n_clusters p1 p2 p3 p4 p5 p6 m"
| "run_kernel (Compute_threshold_kernel T n_samples data topk threshold) m =
     compute_threshold_kernel n_samples data topk threshold m"
| "run_kernel (Select_samples_far_from_centroid_kernel dataT indT n_selected n_samples wg
      p1 p2 p3 p4 p5) m =
     select_samples_far_from_centroid_kernel n_selected n_samples p1 p2 p3 p4 p5 m"
| "run_kernel _ m = None"

text \<open>
  The default event is bound to no work, and the host task of \<^verbatim>\<open>keep_args_alive\<close>
  only holds references: neither writes to memory.
\<close>

fun on_completion :: "event \<Rightarrow> memory \<Rightarrow> memory option" where
  "on_completion Default_event m = Some m"
| "on_completion (Kernel_event q k depends) m = run_kernel k m"
| "on_completion (Host_task_event q args depends) m = Some m"

fun kept_alive :: "event \<Rightarrow> usm_ndarray list" where
  "kept_alive (Host_task_event q args depends) = args"
| "kept_alive _ = []"

fun submitted_kernel :: "event \<Rightarrow> kernel option" where
  "submitted_kernel (Kernel_event q k depends) = Some k"
| "submitted_kernel _ = None"

subsection \<open>Auxiliary notions for the statements\<close>

text \<open>
  A C-contiguous array on a given allocation and queue, for concrete calls.
\<close>

definition contiguous_array :: "nat \<Rightarrow> nat list \<Rightarrow> typenum \<Rightarrow> queue \<Rightarrow> usm_ndarray" where
  "contiguous_array a shp t q =
     \<lparr>arr_data = a, arr_shape = shp, arr_typenum = t, arr_c_contiguous = True, arr_queue = q\<rparr>"

definition has_floating_type :: "usm_ndarray \<Rightarrow> bool" where
  "has_floating_type a = (get_typenum a = UAR_FLOAT \<or> get_typenum a = UAR_DOUBLE)"

definition has_index_type :: "usm_ndarray \<Rightarrow> bool" where
  "has_index_type a = (get_typenum a = UAR_INT32 \<or> get_typenum a = UAR_INT64)"

fun pointer_allocation :: "pointer \<Rightarrow> nat" where
  "pointer_allocation (Ptr a T) = a"

fun kernel_pointers :: "kernel \<Rightarrow> pointer list" where
  "kernel_pointers (Broadcast_division_kernel T r c wg p1 p2) = [p1, p2]"
| "kernel_pointers (Half_l2_norm_kernel T r c wg p1 p2) = [p1, p2]"
| "kernel_pointers (Reduce_centroid_data_kernel dataT indT nc nf nk wg p1 p2 p3 p4 p5 p6) =
     [p1, p2, p3, p4, p5, p6]"
| "kernel_pointers (Compute_threshold_kernel T n p1 topk p2) = [p1, p2]"
| "kernel_pointers (Select_samples_far_from_centroid_kernel dataT indT ns n wg p1 p2 p3 p4 p5) =
     [p1, p2, p3, p4, p5]"
| "kernel_pointers (Relocate_empty_clusters dataT indT n f k wg ne p1 p2 p3 p4 p5 p6 p7 p8) =
     [p1, p2, p3, p4, p5, p6, p7, p8]"
| "kernel_pointers (Compute_centroid_shifts_squared_kernel T f k wg p1 p2 p3) = [p1, p2, p3]"
| "kernel_pointers (Compute_distances T pm wm n f k h wg p1 p2 p3) = [p1, p2, p3]"
| "kernel_pointers (Assignment dataT indT pm wm n f k h wg p1 p2 p3 p4) = [p1, p2, p3, p4]"

text \<open>
  The C types at which the dispatch instantiates a kernel for an array of a supported
  type number, and an array whose allocation holds one value for each of its elements.
\<close>

definition data_ctype :: "typenum \<Rightarrow> ctype" where
  "data_ctype t = (if t = UAR_FLOAT then C_float else C_double)"

definition index_ctype :: "typenum \<Rightarrow> ctype" where
  "index_ctype t = (if t = UAR_INT32 then C_int32 else C_int64)"

definition holds_reals :: "memory \<Rightarrow> usm_ndarray \<Rightarrow> real list \<Rightarrow> bool" where
  "holds_reals m a xs = (array_reals m a = Some xs \<and> length xs = get_size a)"

definition holds_ints :: "memory \<Rightarrow> usm_ndarray \<Rightarrow> int list \<Rightarrow> bool" where
  "holds_ints m a xs = (array_ints m a = Some xs \<and> length xs = get_size a)"

section \<open>Properties of the entry points\<close>

lemma contiguous_array_simps:
  "get_ndim (contiguous_array a shp t q) = length shp"
  "get_shape (contiguous_array a shp t q) i = shp ! i"
  "get_size (contiguous_array a shp t q) = prod_list shp"
  "get_typenum (contiguous_array a shp t q) = t"
  "get_queue (contiguous_array a shp t q) = q"
  "is_c_contiguous (contiguous_array a shp t q)"
  "get_data T (contiguous_array a shp t q) = Ptr a T"
  "arr_data (contiguous_array a shp t q) = a"
  by (simp_all add: contiguous_array_def get_ndim_def get_shape_def get_size_def
      get_typenum_def get_queue_def is_c_contiguous_def get_data_def)

lemma contiguous_array_eq_iff:
  "contiguous_array a shp t q = contiguous_array a' shp' t' q' \<longleftrightarrow>
     a = a' \<and> shp = shp' \<and> t = t' \<and> q = q'"
  by (auto simp add: contiguous_array_def)

subsection \<open>Scalar parameters\<close>

text \<open>
  Claim C10: \<^verbatim>\<open>compute_threshold\<close> does not compare \<open>topk\<close> with the length of the
  data. Whenever the arrays pass the validation (a C-contiguous vector, a one-element
  threshold of the same floating type, compatible queues) and \<open>topk\<close> is at least one,
  the kernel is submitted with that \<open>topk\<close>, whatever the length \<^verbatim>\<open>get_shape(0)\<close> of the
  data is; the witness has \<open>topk = 5\<close> on two elements.
\<close>

theorem compute_threshold_dispatches_any_topk:
  assumes "get_ndim data = 1" and "is_c_contiguous data" and "is_c_contiguous threshold"
    and "get_size threshold = 1" and "get_typenum data = get_typenum threshold"
    and "get_typenum data = UAR_FLOAT \<or> get_typenum data = UAR_DOUBLE"
    and "get_queue data = q" and "get_queue threshold = q"
    and "1 \<le> topk"
  shows "py_compute_threshold data topk threshold q depends =
    Inr (keep_args_alive q [data, threshold]
           [Kernel_event q (Compute_threshold_kernel C_float (get_shape data 0)
              (get_data C_float data) topk (get_data C_float threshold)) depends],
         Kernel_event q (Compute_threshold_kernel C_float (get_shape data 0)
           (get_data C_float data) topk (get_data C_float threshold)) depends)"
  using assms unfolding py_compute_threshold_def Let_def by auto

theorem compute_threshold_dispatches_any_topk_witness:
  "py_compute_threshold (contiguous_array 0 [2] UAR_FLOAT 0) 5
     (contiguous_array 1 [1] UAR_FLOAT 0) 0 [] =
   Inr (Host_task_event 0
          [contiguous_array 0 [2] UAR_FLOAT 0, contiguous_array 1 [1] UAR_FLOAT 0]
          [Kernel_event 0
             (Compute_threshold_kernel C_float 2 (Ptr 0 C_float) 5 (Ptr 1 C_float)) []],
        Kernel_event 0
          (Compute_threshold_kernel C_float 2 (Ptr 0 C_float) 5 (Ptr 1 C_float)) [])"
  using compute_threshold_dispatches_any_topk
    [of "contiguous_array 0 [2] UAR_FLOAT 0" "contiguous_array 1 [1] UAR_FLOAT 0" 0 5 "[]"]
  by (simp add: contiguous_array_simps keep_args_alive_def)

text \<open>
  Claim C5: with \<open>topk = 0\<close>, a call whose arrays pass the validation returns at once:
  both returned events are default events, bound to no kernel and holding no array,
  and their completion leaves the memory, so the threshold buffer, as it was. The
  element type is not examined on this path.
\<close>

theorem compute_threshold_topk_zero_noop:
  assumes "get_ndim data = 1" and "is_c_contiguous data" and "is_c_contiguous threshold"
    and "get_size threshold = 1" and "get_typenum data = get_typenum threshold"
    and "get_queue data = q" and "get_queue threshold = q"
  shows "\<exists>ht_ev comp_ev.
    py_compute_threshold data 0 threshold q depends = Inr (ht_ev, comp_ev) \<and>
    submitted_kernel ht_ev = None \<and> submitted_kernel comp_ev = None \<and>
    kept_alive ht_ev = [] \<and>
    on_completion comp_ev m = Some m \<and> on_completion ht_ev m = Some m"
  using assms unfolding py_compute_threshold_def Let_def by auto

theorem compute_threshold_topk_zero_noop_witness:
  "\<exists>ht_ev comp_ev.
    py_compute_threshold (contiguous_array 0 [3] UAR_FLOAT 0) 0
      (contiguous_array 1 [1] UAR_FLOAT 0) 0 [] = Inr (ht_ev, comp_ev) \<and>
    submitted_kernel ht_ev = None \<and> submitted_kernel comp_ev = None \<and>
    kept_alive ht_ev = [] \<and>
    on_completion comp_ev
      [0 \<mapsto> Real_buffer C_float [3, 1, 2], 1 \<mapsto> Real_buffer C_float [7]] =
      Some [0 \<mapsto> Real_buffer C_float [3, 1, 2], 1 \<mapsto> Real_buffer C_float [7]] \<and>
    on_completion ht_ev
      [0 \<mapsto> Real_buffer C_float [3, 1, 2], 1 \<mapsto> Real_buffer C_float [7]] =
      Some [0 \<mapsto> Real_buffer C_float [3, 1, 2], 1 \<mapsto> Real_buffer C_float [7]]"
  using compute_threshold_topk_zero_noop
    [of "contiguous_array 0 [3] UAR_FLOAT 0" "contiguous_array 1 [1] UAR_FLOAT 0" 0 "[]"
        "[0 \<mapsto> Real_buffer C_float [3, 1, 2], 1 \<mapsto> Real_buffer C_float [7]]"]
  by (simp add: contiguous_array_simps)

text \<open>
  Claim C7: invalid scalar parameters are rejected with an error, so before any kernel
  is submitted: \<^verbatim>\<open>select_samples_far_from_centroid\<close> raises for \<open>n_selected = 0\<close> and
  for \<open>n_selected\<close> above the sample count \<^verbatim>\<open>distance_to_centroid.get_shape(0)\<close> (a
  distance array that is not one-dimensional is rejected as well), and
  \<^verbatim>\<open>relocate_empty_clusters\<close> raises for \<open>n_empty_clusters = 0\<close>, whatever the other
  arguments are.
\<close>

theorem invalid_scalar_parameters_rejected:
  "isl (py_select_samples_far_from_centroid 0 distance_to_centroid threshold
          selected_samples_idx n_selected_gt_threshold n_selected_eq_threshold q depends) \<and>
   ((get_ndim distance_to_centroid = 1 \<longrightarrow> get_shape distance_to_centroid 0 < n_selected) \<longrightarrow>
      isl (py_select_samples_far_from_centroid n_selected distance_to_centroid threshold
          selected_samples_idx n_selected_gt_threshold n_selected_eq_threshold q depends)) \<and>
   isl (py_relocate_empty_clusters 0 X_t sample_weights assignment_id empty_clusters_list
          sq_dist_to_nearest_centroid centroid_t cluster_sizes per_sample_inertia q depends)"
proof (intro conjI impI)
  show "isl (py_select_samples_far_from_centroid 0 distance_to_centroid threshold
          selected_samples_idx n_selected_gt_threshold n_selected_eq_threshold q depends)"
    by (simp add: py_select_samples_far_from_centroid_def)
  show "isl (py_select_samples_far_from_centroid n_selected distance_to_centroid threshold
          selected_samples_idx n_selected_gt_threshold n_selected_eq_threshold q depends)"
    if "get_ndim distance_to_centroid = 1 \<longrightarrow> get_shape distance_to_centroid 0 < n_selected"
    using that by (simp add: py_select_samples_far_from_centroid_def Let_def)
  show "isl (py_relocate_empty_clusters 0 X_t sample_weights assignment_id
          empty_clusters_list sq_dist_to_nearest_centroid centroid_t cluster_sizes
          per_sample_inertia q depends)"
    by (simp add: py_relocate_empty_clusters_def Let_def)
qed

theorem invalid_scalar_parameters_rejected_witness:
  "get_ndim (contiguous_array 0 [4] UAR_FLOAT 0) = 1 \<and>
   get_shape (contiguous_array 0 [4] UAR_FLOAT 0) 0 < 5 \<and>
   isl (py_select_samples_far_from_centroid 5 (contiguous_array 0 [4] UAR_FLOAT 0)
          (contiguous_array 1 [1] UAR_FLOAT 0) (contiguous_array 2 [8] UAR_INT32 0)
          (contiguous_array 3 [1] UAR_INT32 0) (contiguous_array 4 [1] UAR_INT32 0) 0 [])"
  using invalid_scalar_parameters_rejected
    [of "contiguous_array 0 [4] UAR_FLOAT 0" "contiguous_array 1 [1] UAR_FLOAT 0"
        "contiguous_array 2 [8] UAR_INT32 0" "contiguous_array 3 [1] UAR_INT32 0"
        "contiguous_array 4 [1] UAR_INT32 0" 0 "[]" 5]
  by (simp add: contiguous_array_simps)

subsection \<open>Keep-alive of the arguments\<close>

text \<open>
  Every entry point but one passes all its array arguments to \<^verbatim>\<open>keep_args_alive\<close>
  whenever it submits a kernel.
\<close>

lemma broadcast_divide_keeps_all_arguments:
  "py_broadcast_divide X y q depends = Inr (ht_ev, comp_ev) \<Longrightarrow> kept_alive ht_ev = [X, y]"
  unfolding py_broadcast_divide_def Let_def keep_args_alive_def
  by (auto split: if_splits)

lemma half_l2_norm_squared_keeps_all_arguments:
  "py_half_l2_norm_squared X y q depends = Inr (ht_ev, comp_ev) \<Longrightarrow> kept_alive ht_ev = [X, y]"
  unfolding py_half_l2_norm_squared_def Let_def keep_args_alive_def
  by (auto split: if_splits)

lemma reduce_centroids_data_keeps_all_arguments:
  "py_reduce_centroids_data a1 a2 a3 a4 a5 a6 q depends = Inr (ht_ev, comp_ev) \<Longrightarrow>
   kept_alive ht_ev = [a1, a2, a3, a4, a5, a6]"
  unfolding py_reduce_centroids_data_def Let_def keep_args_alive_def
  by (auto split: if_splits)

lemma compute_threshold_keeps_all_arguments:
  "py_compute_threshold data topk threshold q depends = Inr (ht_ev, comp_ev) \<Longrightarrow>
   topk \<noteq> 0 \<Longrightarrow> kept_alive ht_ev = [data, threshold]"
  unfolding py_compute_threshold_def Let_def keep_args_alive_def
  by (auto split: if_splits)

lemma select_samples_keeps_all_arguments:
  "py_select_samples_far_from_centroid n a1 a2 a3 a4 a5 q depends = Inr (ht_ev, comp_ev) \<Longrightarrow>
   kept_alive ht_ev = [a1, a2, a3, a4, a5]"
  unfolding py_select_samples_far_from_centroid_def Let_def keep_args_alive_def
  by (auto split: if_splits)

lemma centroid_shifts_keeps_all_arguments:
  "py_compute_centroid_shifts_squared_kernel a1 a2 a3 q depends = Inr (ht_ev, comp_ev) \<Longrightarrow>
   kept_alive ht_ev = [a1, a2, a3]"
  unfolding py_compute_centroid_shifts_squared_kernel_def Let_def keep_args_alive_def
  by (auto split: if_splits)

lemma compute_distances_keeps_all_arguments:
  "py_compute_distances a1 a2 a3 wg h q depends = Inr (ht_ev, comp_ev) \<Longrightarrow>
   kept_alive ht_ev = [a1, a2, a3]"
  unfolding py_compute_distances_def Let_def keep_args_alive_def
  by (auto split: if_splits)

lemma assignment_keeps_all_arguments:
  "py_assignment a1 a2 a3 a4 h wg q depends = Inr (ht_ev, comp_ev) \<Longrightarrow>
   kept_alive ht_ev = [a1, a2, a3, a4]"
  unfolding py_assignment_def Let_def keep_args_alive_def
  by (auto split: if_splits)

text \<open>
  Claim C9, on \<^verbatim>\<open>relocate_empty_clusters\<close>: the claim wants all eight array arguments
  held by the keep-alive event. Every call that is accepted holds exactly seven: the
  list given to \<^verbatim>\<open>keep_args_alive\<close> ends at \<^verbatim>\<open>cluster_sizes\<close>, while the submitted
  kernel receives a pointer into the allocation of \<^verbatim>\<open>per_sample_inertia\<close>, which it
  mutates.
\<close>

theorem relocate_keep_alive_omits_inertia:
  assumes "py_relocate_empty_clusters n_empty_clusters X_t sample_weights assignment_id
     empty_clusters_list sq_dist_to_nearest_centroid centroid_t cluster_sizes
     per_sample_inertia q depends = Inr (ht_ev, comp_ev)"
  shows "kept_alive ht_ev = [X_t, sample_weights, assignment_id, empty_clusters_list,
           sq_dist_to_nearest_centroid, centroid_t, cluster_sizes] \<and>
         (\<exists>k. submitted_kernel comp_ev = Some k \<and>
              arr_data per_sample_inertia \<in> pointer_allocation ` set (kernel_pointers k))"
  using assms unfolding py_relocate_empty_clusters_def Let_def keep_args_alive_def
  by (auto split: if_splits simp add: get_data_def)

theorem relocate_keep_alive_omits_inertia_witness:
  "py_relocate_empty_clusters 1
      (contiguous_array 0 [2, 4] UAR_FLOAT 0) (contiguous_array 1 [4] UAR_FLOAT 0)
      (contiguous_array 2 [4] UAR_INT32 0) (contiguous_array 3 [2] UAR_INT32 0)
      (contiguous_array 4 [4] UAR_FLOAT 0) (contiguous_array 5 [2, 2] UAR_FLOAT 0)
      (contiguous_array 6 [2] UAR_FLOAT 0) (contiguous_array 7 [4] UAR_FLOAT 0) 0 [] =
    Inr (Host_task_event 0
      [contiguous_array 0 [2, 4] UAR_FLOAT 0, contiguous_array 1 [4] UAR_FLOAT 0,
       contiguous_array 2 [4] UAR_INT32 0, contiguous_array 3 [2] UAR_INT32 0,
       contiguous_array 4 [4] UAR_FLOAT 0, contiguous_array 5 [2, 2] UAR_FLOAT 0,
       contiguous_array 6 [2] UAR_FLOAT 0]
      [Kernel_event 0 (Relocate_empty_clusters C_float C_int32 4 2 2 64 1
         (Ptr 0 C_float) (Ptr 1 C_float) (Ptr 2 C_int32) (Ptr 3 C_int32)
         (Ptr 4 C_float) (Ptr 5 C_float) (Ptr 6 C_float) (Ptr 7 C_float)) []],
      Kernel_event 0 (Relocate_empty_clusters C_float C_int32 4 2 2 64 1
         (Ptr 0 C_float) (Ptr 1 C_float) (Ptr 2 C_int32) (Ptr 3 C_int32)
         (Ptr 4 C_float) (Ptr 5 C_float) (Ptr 6 C_float) (Ptr 7 C_float)) []) \<and>
   contiguous_array 7 [4] UAR_FLOAT 0 \<notin> set (kept_alive (Host_task_event 0
      [contiguous_array 0 [2, 4] UAR_FLOAT 0, contiguous_array 1 [4] UAR_FLOAT 0,
       contiguous_array 2 [4] UAR_INT32 0, contiguous_array 3 [2] UAR_INT32 0,
       contiguous_array 4 [4] UAR_FLOAT 0, contiguous_array 5 [2, 2] UAR_FLOAT 0,
       contiguous_array 6 [2] UAR_FLOAT 0]
      [Kernel_event 0 (Relocate_empty_clusters C_float C_int32 4 2 2 64 1
         (Ptr 0 C_float) (Ptr 1 C_float) (Ptr 2 C_int32) (Ptr 3 C_int32)
         (Ptr 4 C_float) (Ptr 5 C_float) (Ptr 6 C_float) (Ptr 7 C_float)) []]))"
  (is "?call = Inr (?ht, ?comp) \<and> ?psi \<notin> set (kept_alive ?ht)")
proof -
  have call: "?call = Inr (?ht, ?comp)"
    by (simp add: py_relocate_empty_clusters_def Let_def contiguous_array_simps
        keep_args_alive_def cast_indT_def)
  from relocate_keep_alive_omits_inertia [OF call]
  have "?psi \<notin> set (kept_alive ?ht)"
    by (simp add: contiguous_array_eq_iff)
  with call show ?thesis by simp
qed

subsection \<open>Element types\<close>

text \<open>
  Claim C2, on the double-precision branch of \<^verbatim>\<open>compute_threshold\<close>: the claim wants
  a kernel instantiated at \<^verbatim>\<open>double\<close> that reads both arrays as \<^verbatim>\<open>double\<close>. For
  every accepted call on double arrays with \<open>topk\<close> at least one, the submitted kernel
  is instantiated at \<^verbatim>\<open>float\<close> and both pointers are taken with
  \<^verbatim>\<open>get_data<float>()\<close>: the branch repeats \<^verbatim>\<open>using dataT = float\<close>.
\<close>

theorem compute_threshold_double_branch_uses_float:
  assumes "get_ndim data = 1" and "is_c_contiguous data" and "is_c_contiguous threshold"
    and "get_size threshold = 1"
    and "get_typenum data = UAR_DOUBLE" and "get_typenum threshold = UAR_DOUBLE"
    and "get_queue data = q" and "get_queue threshold = q"
    and "1 \<le> topk"
  shows "\<exists>ht_ev. py_compute_threshold data topk threshold q depends =
    Inr (ht_ev, Kernel_event q (Compute_threshold_kernel C_float (get_shape data 0)
           (Ptr (arr_data data) C_float) topk (Ptr (arr_data threshold) C_float)) depends)"
  using assms unfolding py_compute_threshold_def Let_def get_data_def by auto

theorem compute_threshold_double_branch_uses_float_witness:
  "\<exists>ht_ev. py_compute_threshold (contiguous_array 0 [3] UAR_DOUBLE 0) 1
      (contiguous_array 1 [1] UAR_DOUBLE 0) 0 [] =
    Inr (ht_ev, Kernel_event 0
      (Compute_threshold_kernel C_float 3 (Ptr 0 C_float) 1 (Ptr 1 C_float)) [])"
  using compute_threshold_double_branch_uses_float
    [of "contiguous_array 0 [3] UAR_DOUBLE 0" "contiguous_array 1 [1] UAR_DOUBLE 0" 0 1 "[]"]
  by (simp add: contiguous_array_simps)

text \<open>
  The sibling entry points instantiate their kernels at \<^verbatim>\<open>double\<close> on double arrays,
  as here \<^verbatim>\<open>half_l2_norm_squared\<close>.
\<close>

lemma half_l2_norm_squared_double_branch_uses_double:
  assumes "py_half_l2_norm_squared X y q depends = Inr (ht_ev, comp_ev)"
    and "get_typenum y = UAR_DOUBLE"
  shows "comp_ev = Kernel_event q (Half_l2_norm_kernel C_double (get_shape X 0)
           (get_shape X 1) 32 (Ptr (arr_data X) C_double) (Ptr (arr_data y) C_double)) depends"
  using assms unfolding py_half_l2_norm_squared_def Let_def get_data_def
  by (auto split: if_splits)

text \<open>
  What an accepted call tells about the element types, entry point by entry point.
\<close>

lemma broadcast_divide_accepts_types:
  "py_broadcast_divide X y q depends = Inr r \<Longrightarrow> list_all has_floating_type [X, y]"
  unfolding py_broadcast_divide_def Let_def has_floating_type_def
  by (auto split: if_splits)

lemma half_l2_norm_squared_accepts_types:
  "py_half_l2_norm_squared X y q depends = Inr r \<Longrightarrow> list_all has_floating_type [X, y]"
  unfolding py_half_l2_norm_squared_def Let_def has_floating_type_def
  by (auto split: if_splits)

lemma reduce_centroids_data_accepts_types:
  "py_reduce_centroids_data a1 a2 a3 a4 a5 a6 q depends = Inr r \<Longrightarrow>
   list_all has_floating_type [a1, a2, a3, a4] \<and> list_all has_index_type [a5, a6]"
  unfolding py_reduce_centroids_data_def Let_def has_floating_type_def has_index_type_def
  by (auto split: if_splits)

lemma compute_threshold_accepts_types:
  "py_compute_threshold data topk threshold q depends = Inr r \<Longrightarrow> topk \<noteq> 0 \<Longrightarrow>
   list_all has_floating_type [data, threshold]"
  unfolding py_compute_threshold_def Let_def has_floating_type_def
  by (auto split: if_splits)

lemma select_samples_accepts_types:
  "py_select_samples_far_from_centroid n a1 a2 a3 a4 a5 q depends = Inr r \<Longrightarrow>
   list_all has_floating_type [a1, a2] \<and> list_all has_index_type [a3, a4, a5]"
  unfolding py_select_samples_far_from_centroid_def Let_def has_floating_type_def
    has_index_type_def
  by (auto split: if_splits)

lemma relocate_empty_clusters_accepts_types:
  "py_relocate_empty_clusters n a1 a2 a3 a4 a5 a6 a7 a8 q depends = Inr r \<Longrightarrow>
   list_all has_floating_type [a1, a2, a5, a6, a7, a8] \<and> list_all has_index_type [a3, a4]"
  unfolding py_relocate_empty_clusters_def Let_def has_floating_type_def has_index_type_def
  by (auto split: if_splits)

lemma centroid_shifts_accepts_types:
  "py_compute_centroid_shifts_squared_kernel a1 a2 a3 q depends = Inr r \<Longrightarrow>
   list_all has_floating_type [a1, a2, a3]"
  unfolding py_compute_centroid_shifts_squared_kernel_def Let_def has_floating_type_def
  by (auto split: if_splits)

lemma compute_distances_accepts_types:
  "py_compute_distances a1 a2 a3 wg h q depends = Inr r \<Longrightarrow>
   list_all has_floating_type [a1, a2, a3]"
  unfolding py_compute_distances_def Let_def has_floating_type_def
  by (auto split: if_splits)

lemma assignment_accepts_types:
  "py_assignment a1 a2 a3 a4 h wg q depends = Inr r \<Longrightarrow>
   list_all has_floating_type [a1, a2, a3] \<and> has_index_type a4"
  unfolding py_assignment_def Let_def has_floating_type_def has_index_type_def
  by (auto split: if_splits)

lemma not_accepted_is_error: "(\<And>r. x = Inr r \<Longrightarrow> False) \<Longrightarrow> isl x"
  by (cases x) auto

text \<open>
  Claim C6, as amended: every entry point raises when one of its data arrays is not of
  single or double precision or one of its index arrays is not a 32 or 64 bit integer
  array; for \<^verbatim>\<open>compute_threshold\<close> this holds for \<open>topk\<close> other than zero. (With
  \<open>topk = 0\<close> the entry point returns before the dispatch on the element type, which
  is where the unsupported types are rejected.)
\<close>

theorem unsupported_element_types_rejected:
  "(\<not> list_all has_floating_type [X, y] \<longrightarrow> isl (py_broadcast_divide X y q depends)) \<and>
   (\<not> list_all has_floating_type [X, y] \<longrightarrow> isl (py_half_l2_norm_squared X y q depends)) \<and>
   (\<not> (list_all has_floating_type [cluster_sizes_private_copies,
          centroids_t_private_copies, out_cluster_sizes, out_centroids_t] \<and>
        list_all has_index_type [out_empty_clusters_list, out_n_empty_clusters]) \<longrightarrow>
      isl (py_reduce_centroids_data cluster_sizes_private_copies centroids_t_private_copies
        out_cluster_sizes out_centroids_t out_empty_clusters_list out_n_empty_clusters
        q depends)) \<and>
   (topk \<noteq> 0 \<longrightarrow> \<not> list_all has_floating_type [data, threshold] \<longrightarrow>
      isl (py_compute_threshold data topk threshold q depends)) \<and>
   (\<not> (list_all has_floating_type [distance_to_centroid, threshold] \<and>
        list_all has_index_type [selected_samples_idx, n_selected_gt_threshold,
          n_selected_eq_threshold]) \<longrightarrow>
      isl (py_select_samples_far_from_centroid n_selected distance_to_centroid threshold
        selected_samples_idx n_selected_gt_threshold n_selected_eq_threshold q depends)) \<and>
   (\<not> (list_all has_floating_type [X_t, sample_weights, sq_dist_to_nearest_centroid,
          centroid_t, cluster_sizes, per_sample_inertia] \<and>
        list_all has_index_type [assignment_id, empty_clusters_list]) \<longrightarrow>
      isl (py_relocate_empty_clusters n_empty_clusters X_t sample_weights assignment_id
        empty_clusters_list sq_dist_to_nearest_centroid centroid_t cluster_sizes
        per_sample_inertia q depends)) \<and>
   (\<not> list_all has_floating_type [old_centroid_t, new_centroid_t, centroid_shifts] \<longrightarrow>
      isl (py_compute_centroid_shifts_squared_kernel old_centroid_t new_centroid_t
        centroid_shifts q depends)) \<and>
   (\<not> list_all has_floating_type [X_t, centroid_t, euclidean_distances_t] \<longrightarrow>
      isl (py_compute_distances X_t centroid_t euclidean_distances_t work_group_size
        centroids_window_height q depends)) \<and>
   (\<not> (list_all has_floating_type [X_t, centroid_t, centroids_half_l2_norm] \<and>
        has_index_type assignment_id) \<longrightarrow>
      isl (py_assignment X_t centroid_t centroids_half_l2_norm assignment_id
        centroids_window_height work_group_size q depends))"
proof (intro conjI impI)
  show "isl (py_broadcast_divide X y q depends)"
    if "\<not> list_all has_floating_type [X, y]"
    using that broadcast_divide_accepts_types by (intro not_accepted_is_error) blast
  show "isl (py_half_l2_norm_squared X y q depends)"
    if "\<not> list_all has_floating_type [X, y]"
    using that half_l2_norm_squared_accepts_types by (intro not_accepted_is_error) blast
  show "isl (py_reduce_centroids_data cluster_sizes_private_copies
        centroids_t_private_copies out_cluster_sizes out_centroids_t
        out_empty_clusters_list out_n_empty_clusters q depends)"
    if "\<not> (list_all has_floating_type [cluster_sizes_private_copies,
          centroids_t_private_copies, out_cluster_sizes, out_centroids_t] \<and>
        list_all has_index_type [out_empty_clusters_list, out_n_empty_clusters])"
    using that reduce_centroids_data_accepts_types by (intro not_accepted_is_error) blast
  show "isl (py_compute_threshold data topk threshold q depends)"
    if "topk \<noteq> 0" and "\<not> list_all has_floating_type [data, threshold]"
    using that compute_threshold_accepts_types by (intro not_accepted_is_error) blast
  show "isl (py_select_samples_far_from_centroid n_selected distance_to_centroid threshold
        selected_samples_idx n_selected_gt_threshold n_selected_eq_threshold q depends)"
    if "\<not> (list_all has_floating_type [distance_to_centroid, threshold] \<and>
        list_all has_index_type [selected_samples_idx, n_selected_gt_threshold,
          n_selected_eq_threshold])"
    using that select_samples_accepts_types by (intro not_accepted_is_error) blast
  show "isl (py_relocate_empty_clusters n_empty_clusters X_t sample_weights assignment_id
        empty_clusters_list sq_dist_to_nearest_centroid centroid_t cluster_sizes
        per_sample_inertia q depends)"
    if "\<not> (list_all has_floating_type [X_t, sample_weights, sq_dist_to_nearest_centroid,
          centroid_t, cluster_sizes, per_sample_inertia] \<and>
        list_all has_index_type [assignment_id, empty_clusters_list])"
    using that relocate_empty_clusters_accepts_types by (intro not_accepted_is_error) blast
  show "isl (py_compute_centroid_shifts_squared_kernel old_centroid_t new_centroid_t
        centroid_shifts q depends)"
    if "\<not> list_all has_floating_type [old_centroid_t, new_centroid_t, centroid_shifts]"
    using that centroid_shifts_accepts_types by (intro not_accepted_is_error) blast
  show "isl (py_compute_distances X_t centroid_t euclidean_distances_t work_group_size
        centroids_window_height q depends)"
    if "\<not> list_all has_floating_type [X_t, centroid_t, euclidean_distances_t]"
    using that compute_distances_accepts_types by (intro not_accepted_is_error) blast
  show "isl (py_assignment X_t centroid_t centroids_half_l2_norm assignment_id
        centroids_window_height work_group_size q depends)"
    if "\<not> (list_all has_floating_type [X_t, centroid_t, centroids_half_l2_norm] \<and>
        has_index_type assignment_id)"
    using that assignment_accepts_types by (intro not_accepted_is_error) blast
qed

theorem unsupported_element_types_rejected_witness:
  "\<not> has_floating_type (contiguous_array 0 [2, 3] (UAR_OTHER 23) 0) \<and>
   isl (py_broadcast_divide (contiguous_array 0 [2, 3] (UAR_OTHER 23) 0)
        (contiguous_array 1 [3] (UAR_OTHER 23) 0) 0 []) \<and>
   isl (py_half_l2_norm_squared (contiguous_array 0 [2, 3] (UAR_OTHER 23) 0)
        (contiguous_array 1 [3] (UAR_OTHER 23) 0) 0 []) \<and>
   isl (py_reduce_centroids_data (contiguous_array 2 [2, 3] (UAR_OTHER 23) 0)
        (contiguous_array 3 [2, 2, 3] (UAR_OTHER 23) 0) (contiguous_array 4 [3]
        (UAR_OTHER 23) 0) (contiguous_array 5 [2, 3] (UAR_OTHER 23) 0) (contiguous_array
        6 [3] UAR_INT32 0) (contiguous_array 7 [1] UAR_INT32 0) 0 []) \<and>
   isl (py_compute_threshold (contiguous_array 8 [4] (UAR_OTHER 23) 0) 1
        (contiguous_array 9 [1] (UAR_OTHER 23) 0) 0 []) \<and>
   isl (py_select_samples_far_from_centroid 1 (contiguous_array 10 [4] (UAR_OTHER 23) 0)
        (contiguous_array 9 [1] (UAR_OTHER 23) 0) (contiguous_array 11 [4] UAR_INT32 0)
        (contiguous_array 12 [1] UAR_INT32 0) (contiguous_array 13 [1] UAR_INT32 0) 0 []) \<and>
   isl (py_relocate_empty_clusters 1 (contiguous_array 14 [2, 4] (UAR_OTHER 23) 0)
        (contiguous_array 15 [4] (UAR_OTHER 23) 0) (contiguous_array 16 [4] UAR_INT32 0)
        (contiguous_array 17 [2] UAR_INT32 0) (contiguous_array 18 [4] (UAR_OTHER 23) 0)
        (contiguous_array 19 [2, 2] (UAR_OTHER 23) 0) (contiguous_array 20 [2]
        (UAR_OTHER 23) 0) (contiguous_array 21 [4] (UAR_OTHER 23) 0) 0 []) \<and>
   isl (py_compute_centroid_shifts_squared_kernel (contiguous_array 22 [2, 2] (UAR_OTHER
        23) 0) (contiguous_array 23 [2, 2] (UAR_OTHER 23) 0) (contiguous_array 24 [2]
        (UAR_OTHER 23) 0) 0 []) \<and>
   isl (py_compute_distances (contiguous_array 14 [2, 4] (UAR_OTHER 23) 0)
        (contiguous_array 19 [2, 2] (UAR_OTHER 23) 0) (contiguous_array 25 [2, 4]
        (UAR_OTHER 23) 0) 64 8 0 []) \<and>
   isl (py_assignment (contiguous_array 14 [2, 4] (UAR_OTHER 23) 0) (contiguous_array 19
        [2, 2] (UAR_OTHER 23) 0) (contiguous_array 26 [2] (UAR_OTHER 23) 0)
        (contiguous_array 16 [4] UAR_INT32 0) 8 64 0 [])"
  using unsupported_element_types_rejected
    [where X = "contiguous_array 0 [2, 3] (UAR_OTHER 23) 0" and
     y = "contiguous_array 1 [3] (UAR_OTHER 23) 0" and
     cluster_sizes_private_copies = "contiguous_array 2 [2, 3] (UAR_OTHER 23) 0" and
     centroids_t_private_copies = "contiguous_array 3 [2, 2, 3] (UAR_OTHER 23) 0" and
     out_cluster_sizes = "contiguous_array 4 [3] (UAR_OTHER 23) 0" and
     out_centroids_t = "contiguous_array 5 [2, 3] (UAR_OTHER 23) 0" and
     out_empty_clusters_list = "contiguous_array 6 [3] UAR_INT32 0" and
     out_n_empty_clusters = "contiguous_array 7 [1] UAR_INT32 0" and
     data = "contiguous_array 8 [4] (UAR_OTHER 23) 0" and
     topk = "1" and
     threshold = "contiguous_array 9 [1] (UAR_OTHER 23) 0" and
     n_selected = "1" and
     distance_to_centroid = "contiguous_array 10 [4] (UAR_OTHER 23) 0" and
     selected_samples_idx = "contiguous_array 11 [4] UAR_INT32 0" and
     n_selected_gt_threshold = "contiguous_array 12 [1] UAR_INT32 0" and
     n_selected_eq_threshold = "contiguous_array 13 [1] UAR_INT32 0" and
     n_empty_clusters = "1" and
     X_t = "contiguous_array 14 [2, 4] (UAR_OTHER 23) 0" and
     sample_weights = "contiguous_array 15 [4] (UAR_OTHER 23) 0" and
     assignment_id = "contiguous_array 16 [4] UAR_INT32 0" and
     empty_clusters_list = "contiguous_array 17 [2] UAR_INT32 0" and
     sq_dist_to_nearest_centroid = "contiguous_array 18 [4] (UAR_OTHER 23) 0" and
     centroid_t = "contiguous_array 19 [2, 2] (UAR_OTHER 23) 0" and
     cluster_sizes = "contiguous_array 20 [2] (UAR_OTHER 23) 0" and
     per_sample_inertia = "contiguous_array 21 [4] (UAR_OTHER 23) 0" and
     old_centroid_t = "contiguous_array 22 [2, 2] (UAR_OTHER 23) 0" and
     new_centroid_t = "contiguous_array 23 [2, 2] (UAR_OTHER 23) 0" and
     centroid_shifts = "contiguous_array 24 [2] (UAR_OTHER 23) 0" and
     euclidean_distances_t = "contiguous_array 25 [2, 4] (UAR_OTHER 23) 0" and
     work_group_size = "64" and
     centroids_window_height = "8" and
     centroids_half_l2_norm = "contiguous_array 26 [2] (UAR_OTHER 23) 0" and
     q = "0" and
     depends = "[]"]
  by (simp add: has_floating_type_def has_index_type_def contiguous_array_simps)

text \<open>
  Claim C6 as stated fails at \<open>topk = 0\<close>: on 32 bit integer arrays, which are not of a
  supported element type, \<^verbatim>\<open>compute_threshold\<close> returns the two default events and no
  error.
\<close>

theorem compute_threshold_topk_zero_accepts_unsupported_type:
  "\<not> has_floating_type (contiguous_array 0 [3] UAR_INT32 0) \<and>
   \<not> has_floating_type (contiguous_array 1 [1] UAR_INT32 0) \<and>
   py_compute_threshold (contiguous_array 0 [3] UAR_INT32 0) 0
     (contiguous_array 1 [1] UAR_INT32 0) 0 [] = Inr (Default_event, Default_event)"
  by (simp add: py_compute_threshold_def Let_def has_floating_type_def
      contiguous_array_simps)

text \<open>
  Claim C1, on double-precision data: the claim wants the \<open>topk\<close>-th largest element
  of the data in the threshold. On double arrays the entry point submits the kernel
  instantiated at \<^verbatim>\<open>float\<close>, with both pointers taken by \<^verbatim>\<open>get_data<float>()\<close>; the
  kernel then reads the bytes of the doubles as floats and stores a float into the double
  threshold, so completion does not give the order statistic of the data (here: no value
  at all, a float read of a double allocation having none).
\<close>

theorem compute_threshold_on_double_data_no_order_statistic:
  assumes "get_ndim data = 1" and "is_c_contiguous data" and "is_c_contiguous threshold"
    and "get_size threshold = 1"
    and "get_typenum data = UAR_DOUBLE" and "get_typenum threshold = UAR_DOUBLE"
    and "get_queue data = q" and "get_queue threshold = q"
    and "1 \<le> topk" and "topk \<le> length xs"
    and "array_reals m data = Some xs"
  shows "\<exists>ht_ev comp_ev.
    py_compute_threshold data topk threshold q depends = Inr (ht_ev, comp_ev) \<and>
    on_completion comp_ev m = None"
proof -
  from assms have "m (arr_data data) = Some (Real_buffer C_double xs)"
    by (auto simp add: array_reals_def get_data_def split: option.splits buffer.splits if_splits)
  then have "read_reals m (get_data C_float data) = None"
    by (simp add: get_data_def)
  then have "compute_threshold_kernel (get_shape data 0) (get_data C_float data) topk
      (get_data C_float threshold) m = None"
    by (simp add: compute_threshold_kernel_def)
  with assms show ?thesis
    unfolding py_compute_threshold_def Let_def by auto
qed

theorem compute_threshold_on_double_data_no_order_statistic_witness:
  "\<exists>ht_ev comp_ev.
    py_compute_threshold (contiguous_array 0 [3] UAR_DOUBLE 0) 1
      (contiguous_array 1 [1] UAR_DOUBLE 0) 0 [] = Inr (ht_ev, comp_ev) \<and>
    on_completion comp_ev
      [0 \<mapsto> Real_buffer C_double [3, 1, 2], 1 \<mapsto> Real_buffer C_double [0]] = None"
  using compute_threshold_on_double_data_no_order_statistic
    [of "contiguous_array 0 [3] UAR_DOUBLE 0" "contiguous_array 1 [1] UAR_DOUBLE 0" 0 1
        "[3, 1, 2]" "[0 \<mapsto> Real_buffer C_double [3, 1, 2], 1 \<mapsto> Real_buffer C_double [0]]"
        "[]"]
  by (simp add: contiguous_array_simps array_reals_def)

section \<open>Properties of the kernels behind the entry points\<close>

subsection \<open>Reading and writing arrays\<close>

lemma array_reals_SomeD:
  assumes "array_reals m a = Some xs"
  shows "has_floating_type a"
    and "read_reals m (Ptr (arr_data a) (data_ctype (get_typenum a))) = Some xs"
  using assms
  by (auto simp add: array_reals_def has_floating_type_def data_ctype_def get_data_def
      split: if_splits)

lemma array_ints_SomeD:
  assumes "array_ints m a = Some xs"
  shows "has_index_type a"
    and "read_ints m (Ptr (arr_data a) (index_ctype (get_typenum a))) = Some xs"
  using assms
  by (auto simp add: array_ints_def has_index_type_def index_ctype_def get_data_def
      split: if_splits)

lemma array_reals_after_write:
  "has_floating_type a \<Longrightarrow>
   array_reals (write_reals m (Ptr (arr_data a) (data_ctype (get_typenum a))) xs) a = Some xs"
  by (auto simp add: array_reals_def has_floating_type_def data_ctype_def get_data_def)

lemma array_ints_after_write:
  "has_index_type a \<Longrightarrow>
   array_ints (write_ints m (Ptr (arr_data a) (index_ctype (get_typenum a))) xs) a = Some xs"
  by (auto simp add: array_ints_def has_index_type_def index_ctype_def get_data_def)


lemma array_ints_after_other_write:
  "arr_data a \<noteq> b \<Longrightarrow> array_ints (write_ints m (Ptr b T) ys) a = array_ints m a"
  "arr_data a \<noteq> b \<Longrightarrow> array_ints (write_reals m (Ptr b T) xs) a = array_ints m a"
  by (simp_all add: array_ints_def get_data_def)

lemma sum_list_upt_eq_sum: "sum_list (map f [0..<n]) = (\<Sum>i<n. f i)"
  by (simp add: interv_sum_list_conv_sum_set_nat lessThan_atLeast0)

subsection \<open>Half squared norms\<close>

lemma half_l2_norm_squared_dispatch:
  assumes "get_ndim X = 2" and "get_ndim y = 1" and "is_c_contiguous X"
    and "is_c_contiguous y" and "get_shape y 0 = get_shape X 1"
    and "get_queue X = q" and "get_queue y = q"
    and "get_typenum X = get_typenum y" and "has_floating_type y"
  shows "py_half_l2_norm_squared X y q depends =
    Inr (keep_args_alive q [X, y]
          [Kernel_event q (Half_l2_norm_kernel (data_ctype (get_typenum y))
             (get_shape X 0) (get_shape X 1) 32
             (Ptr (arr_data X) (data_ctype (get_typenum y)))
             (Ptr (arr_data y) (data_ctype (get_typenum y)))) depends],
         Kernel_event q (Half_l2_norm_kernel (data_ctype (get_typenum y))
           (get_shape X 0) (get_shape X 1) 32
           (Ptr (arr_data X) (data_ctype (get_typenum y)))
           (Ptr (arr_data y) (data_ctype (get_typenum y)))) depends)"
  using assms
  unfolding py_half_l2_norm_squared_def Let_def has_floating_type_def data_ctype_def
    get_data_def
  by auto

text \<open>
  Claim C8, on the shapes of \<^verbatim>\<open>half_l2_norm_squared\<close>: the claim wants a matrix with
  \<open>K\<close> rows and \<open>F\<close> columns accepted together with an output vector of length \<open>K\<close>,
  the row count, which is also what the comment on the entry point (the norm along
  \<^verbatim>\<open>axis=1\<close>) and its docstring ("row-wise") describe. The entry point compares
  \<^verbatim>\<open>y.get_shape(0)\<close> with \<^verbatim>\<open>X.get_shape(1)\<close>: for every C-contiguous matrix whose row
  count differs from its column count, an output vector of the row count is rejected.
\<close>

theorem half_l2_norm_squared_rejects_row_count:
  assumes "get_ndim X = 2" and "get_ndim y = 1" and "is_c_contiguous X"
    and "is_c_contiguous y" and "get_shape y 0 = get_shape X 0"
    and "get_shape X 0 \<noteq> get_shape X 1"
  shows "py_half_l2_norm_squared X y q depends =
    Inl (value_error
      ''Array dimensions of arguments are not consistent, X.shape[1] != y.shape[0]'')"
  using assms unfolding py_half_l2_norm_squared_def Let_def by simp

theorem half_l2_norm_squared_rejects_row_count_witness:
  "py_half_l2_norm_squared (contiguous_array 0 [2, 3] UAR_FLOAT 0)
     (contiguous_array 1 [2] UAR_FLOAT 0) 0 [] =
   Inl (value_error
     ''Array dimensions of arguments are not consistent, X.shape[1] != y.shape[0]'')"
  using half_l2_norm_squared_rejects_row_count
    [of "contiguous_array 0 [2, 3] UAR_FLOAT 0" "contiguous_array 1 [2] UAR_FLOAT 0" 0 "[]"]
  by (simp add: contiguous_array_simps)

text \<open>
  What the entry point accepts is an output vector of the column count (same floating
  type, same queue); completion then leaves in it, for each column, half the sum of the
  squares of the column's entries.
\<close>

lemma half_l2_norm_squared_column_count:
  assumes "get_ndim X = 2" and "get_ndim y = 1" and "is_c_contiguous X"
    and "is_c_contiguous y" and "get_shape y 0 = get_shape X 1"
    and "get_queue X = q" and "get_queue y = q"
    and "get_typenum X = get_typenum y"
    and "array_reals m X = Some xs" and "length xs = get_shape X 0 * get_shape X 1"
    and "array_reals m y = Some ys" and "length ys = get_shape y 0"
  shows "\<exists>ht_ev comp_ev m'.
    py_half_l2_norm_squared X y q depends = Inr (ht_ev, comp_ev) \<and>
    on_completion comp_ev m = Some m' \<and>
    array_reals m' y =
      Some (map (\<lambda>j. (\<Sum>i<get_shape X 0. (xs ! (i * get_shape X 1 + j))\<^sup>2) / 2)
              [0..<get_shape X 1])"
proof -
  let ?T = "data_ctype (get_typenum y)"
  let ?k = "Half_l2_norm_kernel ?T (get_shape X 0) (get_shape X 1) 32
              (Ptr (arr_data X) ?T) (Ptr (arr_data y) ?T)"
  let ?out = "map (\<lambda>j. (\<Sum>i<get_shape X 0. (xs ! (i * get_shape X 1 + j))\<^sup>2) / 2)
                [0..<get_shape X 1]"
  have fl: "has_floating_type y"
    using assms(11) by (rule array_reals_SomeD)
  have call: "py_half_l2_norm_squared X y q depends =
      Inr (keep_args_alive q [X, y] [Kernel_event q ?k depends], Kernel_event q ?k depends)"
    using assms(1-8) fl by (rule half_l2_norm_squared_dispatch)
  have rx: "read_reals m (Ptr (arr_data X) ?T) = Some xs"
    using array_reals_SomeD(2) [OF assms(9)] assms(8) by simp
  have ry: "read_reals m (Ptr (arr_data y) ?T) = Some ys"
    using assms(11) by (rule array_reals_SomeD)
  have run: "on_completion (Kernel_event q ?k depends) m =
      Some (write_reals m (Ptr (arr_data y) ?T) ?out)"
    using rx ry assms(5,10,12)
    by (simp add: half_l2_norm_kernel_def sum_list_upt_eq_sum)
  have "array_reals (write_reals m (Ptr (arr_data y) ?T) ?out) y = Some ?out"
    using fl by (rule array_reals_after_write)
  with call run show ?thesis by blast
qed

lemma half_l2_norm_squared_column_count_example:
  "\<exists>ht_ev comp_ev m'.
    py_half_l2_norm_squared (contiguous_array 0 [2, 3] UAR_DOUBLE 0)
      (contiguous_array 1 [3] UAR_DOUBLE 0) 0 [] = Inr (ht_ev, comp_ev) \<and>
    on_completion comp_ev
      [0 \<mapsto> Real_buffer C_double [1, 2, 3, 4, 5, 6], 1 \<mapsto> Real_buffer C_double [0, 0, 0]] =
      Some m' \<and>
    array_reals m' (contiguous_array 1 [3] UAR_DOUBLE 0) = Some [17 / 2, 29 / 2, 45 / 2]"
proof -
  have s: "(\<Sum>i<2. f i) = f 0 + f (1::nat)" for f :: "nat \<Rightarrow> real"
    by (simp add: numeral_2_eq_2)
  show ?thesis
    using half_l2_norm_squared_column_count
      [of "contiguous_array 0 [2, 3] UAR_DOUBLE 0" "contiguous_array 1 [3] UAR_DOUBLE 0" 0
          "[0 \<mapsto> Real_buffer C_double [1, 2, 3, 4, 5, 6], 1 \<mapsto> Real_buffer C_double [0, 0, 0]]"
          "[1, 2, 3, 4, 5, 6]" "[0, 0, 0]" "[]"]
    by (simp add: contiguous_array_simps array_reals_def s upt_rec [of _ 3]
        upt_rec [of _ "Suc 0"] upt_rec [of _ "Suc (Suc 0)"] numeral_3_eq_3)
qed

subsection \<open>Reduction of the private copies\<close>








text \<open>
  The same call, evaluated: the sizes \<open>[1, 0, 2]\<close> and \<open>[3, 0, 0]\<close> of two copies
  reduce to \<open>[4, 0, 2]\<close>, and cluster 1 is the one empty cluster.
\<close>

lemma reduce_centroids_data_example:
  "on_completion
      (Kernel_event 0 (Reduce_centroid_data_kernel C_float C_int64 2 2 3 256
       (Ptr 0 C_float) (Ptr 1 C_float) (Ptr 2 C_float) (Ptr 3 C_float)
       (Ptr 4 C_int64) (Ptr 5 C_int64)) [])
      [0 \<mapsto> Real_buffer C_float [1, 0, 2, 3, 0, 0],
       1 \<mapsto> Real_buffer C_float [1, 2, 3, 4, 5, 6, 7, 8, 9, 10, 11, 12],
       2 \<mapsto> Real_buffer C_float [0, 0, 0],
       3 \<mapsto> Real_buffer C_float [0, 0, 0, 0, 0, 0],
       4 \<mapsto> Int_buffer C_int64 [7, 7, 7],
       5 \<mapsto> Int_buffer C_int64 [7]] =
   Some [0 \<mapsto> Real_buffer C_float [1, 0, 2, 3, 0, 0],
       1 \<mapsto> Real_buffer C_float [1, 2, 3, 4, 5, 6, 7, 8, 9, 10, 11, 12],
       2 \<mapsto> Real_buffer C_float [4, 0, 2],
       3 \<mapsto> Real_buffer C_float [8, 10, 12, 14, 16, 18],
       4 \<mapsto> Int_buffer C_int64 [1, 7, 7],
       5 \<mapsto> Int_buffer C_int64 [1]]"
  by (simp add: reduce_centroid_data_kernel_def copies_sum_def Let_def upt_rec)

subsection \<open>Selection of the far samples\<close>

lemma length_filter_indices:
  "length (filter (\<lambda>i. P (ds ! i)) [0..<length ds]) = length (filter P ds)"
proof -
  have "filter P (map (nth ds) [0..<length ds]) =
      map (nth ds) (filter (\<lambda>i. P (ds ! i)) [0..<length ds])"
    by (simp add: filter_map comp_def)
  then have "filter P ds = map (nth ds) (filter (\<lambda>i. P (ds ! i)) [0..<length ds])"
    by (simp add: map_nth)
  then show ?thesis by (metis length_map)
qed

lemma length_filter_gt_eq:
  fixes t :: real
  shows "length (filter (\<lambda>i. t < f i) xs) + length (filter (\<lambda>i. f i = t) xs) =
    length (filter (\<lambda>i. t \<le> f i) xs)"
  by (induction xs) auto

lemma select_samples_dispatch:
  assumes "py_select_samples_far_from_centroid n_selected a1 a2 a3 a4 a5 q depends =
      Inr (ht_ev, comp_ev)"
  shows "comp_ev = Kernel_event q (Select_samples_far_from_centroid_kernel
            (data_ctype (get_typenum a1)) (index_ctype (get_typenum a3))
            n_selected (get_shape a1 0) 64
            (Ptr (arr_data a1) (data_ctype (get_typenum a1)))
            (Ptr (arr_data a2) (data_ctype (get_typenum a1)))
            (Ptr (arr_data a3) (index_ctype (get_typenum a3)))
            (Ptr (arr_data a4) (index_ctype (get_typenum a3)))
            (Ptr (arr_data a5) (index_ctype (get_typenum a3)))) depends"
    and "get_typenum a2 = get_typenum a1" and "get_typenum a4 = get_typenum a3"
    and "get_typenum a5 = get_typenum a3"
    and "arr_shape a1 = [get_shape a1 0]" and "arr_shape a3 = [get_shape a3 0]"
    and "get_size a2 = 1" and "get_size a4 = 1" and "get_size a5 = 1"
    and "1 \<le> n_selected" and "n_selected \<le> get_shape a1 0"
    and "n_selected \<le> get_shape a3 0"
proof -
  have one: "length xs = 1 \<Longrightarrow> xs = [xs ! 0]" for xs :: "nat list"
    by (cases xs) auto
  note facts = assms [unfolded py_select_samples_far_from_centroid_def Let_def]
  have nd: "get_ndim a1 = 1" "get_ndim a3 = 1"
    using facts by (auto split: if_splits)
  show "arr_shape a1 = [get_shape a1 0]"
    using one [of "arr_shape a1"] nd(1) by (simp add: get_ndim_def get_shape_def)
  show "arr_shape a3 = [get_shape a3 0]"
    using one [of "arr_shape a3"] nd(2) by (simp add: get_ndim_def get_shape_def)
  show "get_size a2 = 1" "get_size a4 = 1" "get_size a5 = 1"
    using facts by (auto split: if_splits)
  show "1 \<le> n_selected" "n_selected \<le> get_shape a1 0" "n_selected \<le> get_shape a3 0"
    using facts by (auto split: if_splits)
  show "get_typenum a2 = get_typenum a1" "get_typenum a4 = get_typenum a3"
    "get_typenum a5 = get_typenum a3"
    using facts by (auto split: if_splits)
  show "comp_ev = Kernel_event q (Select_samples_far_from_centroid_kernel
            (data_ctype (get_typenum a1)) (index_ctype (get_typenum a3))
            n_selected (get_shape a1 0) 64
            (Ptr (arr_data a1) (data_ctype (get_typenum a1)))
            (Ptr (arr_data a2) (data_ctype (get_typenum a1)))
            (Ptr (arr_data a3) (index_ctype (get_typenum a3)))
            (Ptr (arr_data a4) (index_ctype (get_typenum a3)))
            (Ptr (arr_data a5) (index_ctype (get_typenum a3)))) depends"
    using facts
    by (auto split: if_splits simp add: data_ctype_def index_ctype_def get_data_def)
qed

text \<open>
  The layout of the output: the ids above the threshold from the first entry on, the
  ids at the threshold from the last entry backwards, the entries in between as they
  were. The written positions are listed in increasing order.
\<close>

lemma far_samples_layout:
  fixes old :: "int list" and g e :: "nat list"
  assumes fit: "length g + length e \<le> length old"
  defines "idx \<equiv> map int g @
      take (length old - length g - length e) (drop (length g) old) @ rev (map int e)"
    and "pos \<equiv> [0..<length g] @ [length old - length e..<length old]"
  shows "length idx = length old"
    and "length pos = length g + length e"
    and "sorted_wrt (<) pos"
    and "\<forall>p<length old. p \<notin> set pos \<longrightarrow> idx ! p = old ! p"
    and "\<forall>j<length g. pos ! j < length old \<and> idx ! (pos ! j) = int (g ! j)"
    and "\<forall>j. length g \<le> j \<and> j < length g + length e \<longrightarrow>
           pos ! j < length old \<and>
           idx ! (pos ! j) = int (e ! (length g + length e - 1 - j))"
proof -
  let ?L = "length old" and ?lg = "length g" and ?le = "length e"
  let ?mid = "take (?L - ?lg - ?le) (drop ?lg old)"
  have lmid: "length ?mid = ?L - ?lg - ?le"
    using fit by simp
  show "length idx = ?L"
    unfolding idx_def using fit by simp
  show "length pos = ?lg + ?le"
    unfolding pos_def using fit by simp
  show "sorted_wrt (<) pos"
    unfolding pos_def using fit by (auto simp add: sorted_wrt_append)
  show "\<forall>p<?L. p \<notin> set pos \<longrightarrow> idx ! p = old ! p"
  proof (intro allI impI)
    fix p assume p: "p < ?L" and out: "p \<notin> set pos"
    then have lo: "?lg \<le> p" and hi: "p < ?L - ?le"
      unfolding pos_def by auto
    from lo hi have "p - ?lg < length ?mid"
      using lmid by simp
    then have "idx ! p = ?mid ! (p - ?lg)"
      unfolding idx_def using lo by (simp add: nth_append)
    also have "\<dots> = old ! p"
      using lo hi p by simp
    finally show "idx ! p = old ! p" .
  qed
  show "\<forall>j<?lg. pos ! j < ?L \<and> idx ! (pos ! j) = int (g ! j)"
  proof (intro allI impI)
    fix j assume j: "j < ?lg"
    then have "pos ! j = j"
      unfolding pos_def by (simp add: nth_append)
    moreover have "idx ! j = int (g ! j)"
      unfolding idx_def using j by (simp add: nth_append)
    ultimately show "pos ! j < ?L \<and> idx ! (pos ! j) = int (g ! j)"
      using j fit by simp
  qed
  show "\<forall>j. ?lg \<le> j \<and> j < ?lg + ?le \<longrightarrow>
      pos ! j < ?L \<and> idx ! (pos ! j) = int (e ! (?lg + ?le - 1 - j))"
  proof (intro allI impI)
    fix j assume j: "?lg \<le> j \<and> j < ?lg + ?le"
    let ?k = "j - ?lg"
    from j have k: "?k < ?le" by auto
    have "?L - ?le + ?k < ?L"
      using k fit by simp
    then have "[?L - ?le..<?L] ! ?k = ?L - ?le + ?k"
      by (rule nth_upt)
    moreover have "pos ! j = [?L - ?le..<?L] ! ?k"
      unfolding pos_def using j by (simp add: nth_append)
    ultimately have pj: "pos ! j = ?L - ?le + ?k"
      by simp
    have q: "?L - ?le + ?k = length (map int g) + (length ?mid + ?k)"
      using fit by simp
    have "idx ! (length (map int g) + (length ?mid + ?k)) =
        (?mid @ rev (map int e)) ! (length ?mid + ?k)"
      unfolding idx_def by (rule nth_append_length_plus)
    also have "\<dots> = rev (map int e) ! ?k"
      by (rule nth_append_length_plus)
    also have "\<dots> = int (e ! (?le - Suc ?k))"
      using k by (simp add: rev_nth)
    also have "?le - Suc ?k = ?lg + ?le - 1 - j"
      using j by auto
    finally have "idx ! (pos ! j) = int (e ! (?lg + ?le - 1 - j))"
      unfolding pj q .
    moreover have "pos ! j < ?L"
      using pj k fit by simp
    ultimately show "pos ! j < ?L \<and> idx ! (pos ! j) = int (e ! (?lg + ?le - 1 - j))"
      by simp
  qed
qed

text \<open>
  The ids taken: all of them are sample indices on the right side of the threshold, and
  the two counts add up to \<open>s\<close> as soon as \<open>s\<close> distances reach the threshold.
\<close>

lemma taken_ids:
  assumes "j < length (take n (filter P [0..<N]))"
  shows "take n (filter P [0..<N]) ! j < N" and "P (take n (filter P [0..<N]) ! j)"
proof -
  from assms have "take n (filter P [0..<N]) ! j \<in> set (take n (filter P [0..<N]))"
    by (rule nth_mem)
  then have "take n (filter P [0..<N]) ! j \<in> set (filter P [0..<N])"
    by (rule in_set_takeD)
  then show "take n (filter P [0..<N]) ! j < N" and "P (take n (filter P [0..<N]) ! j)"
    by simp_all
qed

lemma selected_counts:
  fixes t :: real and ds :: "real list" and s :: nat
  defines "gt_idx \<equiv> filter (\<lambda>i. t < ds ! i) [0..<length ds]"
    and "eq_idx \<equiv> filter (\<lambda>i. ds ! i = t) [0..<length ds]"
  assumes enough: "s \<le> length (filter (\<lambda>d. t \<le> d) ds)"
  shows "min s (length gt_idx) + min (s - min s (length gt_idx)) (length eq_idx) = s"
proof -
  have "length gt_idx + length eq_idx = length (filter (\<lambda>i. t \<le> ds ! i) [0..<length ds])"
    unfolding gt_idx_def eq_idx_def by (rule length_filter_gt_eq)
  also have "\<dots> = length (filter (\<lambda>d. t \<le> d) ds)"
    by (rule length_filter_indices)
  finally have "s \<le> length gt_idx + length eq_idx"
    using enough by simp
  then show ?thesis by (auto simp add: min_def)
qed

text \<open>
  Claim C4, as amended: for an accepted call of \<^verbatim>\<open>select_samples_far_from_centroid\<close>
  with \<open>n_selected = s\<close> (so \<open>1 \<le> s \<le> n_samples\<close>) and a threshold value that at least
  \<open>s\<close> of the distances are greater than or equal to, completion has written exactly
  \<open>s\<close> sample indices into the output (at the \<open>s\<close> positions \<open>pos\<close>, listed in
  increasing order; every other entry is as it was): the first \<open>n_gt\<close> written indices
  have a distance above the threshold and precede the remaining ones, whose distance
  equals the threshold, and the reported count \<open>n_gt\<close> plus the reported count \<open>n_eq\<close>
  of indices at the threshold equals \<open>s\<close>.
\<close>

theorem select_samples_far_from_centroid_fills_n_selected:
  assumes call: "py_select_samples_far_from_centroid n_selected distance_to_centroid
      threshold selected_samples_idx n_selected_gt_threshold n_selected_eq_threshold
      q depends = Inr (ht_ev, comp_ev)"
    and ds: "holds_reals m distance_to_centroid ds"
    and t: "holds_reals m threshold [t]"
    and old_idx: "holds_ints m selected_samples_idx old_idx"
    and old_gt: "holds_ints m n_selected_gt_threshold old_gt"
    and old_eq: "holds_ints m n_selected_eq_threshold old_eq"
    and apart: "distinct [arr_data selected_samples_idx, arr_data n_selected_gt_threshold,
        arr_data n_selected_eq_threshold]"
    and enough: "n_selected \<le> length (filter (\<lambda>d. t \<le> d) ds)"
  shows "\<exists>m' idx pos n_gt n_eq.
    on_completion comp_ev m = Some m' \<and>
    array_ints m' selected_samples_idx = Some idx \<and>
    array_ints m' n_selected_gt_threshold = Some [int n_gt] \<and>
    array_ints m' n_selected_eq_threshold = Some [int n_eq] \<and>
    length idx = length old_idx \<and>
    length pos = n_selected \<and> sorted_wrt (<) pos \<and>
    (\<forall>p<length idx. p \<notin> set pos \<longrightarrow> idx ! p = old_idx ! p) \<and>
    (\<forall>j<n_gt. pos ! j < length idx \<and>
       (\<exists>i<length ds. idx ! (pos ! j) = int i \<and> t < ds ! i)) \<and>
    (\<forall>j. n_gt \<le> j \<and> j < n_selected \<longrightarrow> pos ! j < length idx \<and>
       (\<exists>i<length ds. idx ! (pos ! j) = int i \<and> ds ! i = t)) \<and>
    n_gt + n_eq = n_selected"
proof -
  let ?dT = "data_ctype (get_typenum distance_to_centroid)"
  let ?iT = "index_ctype (get_typenum selected_samples_idx)"
  let ?p1 = "Ptr (arr_data distance_to_centroid) ?dT"
  let ?p2 = "Ptr (arr_data threshold) ?dT"
  let ?p3 = "Ptr (arr_data selected_samples_idx) ?iT"
  let ?p4 = "Ptr (arr_data n_selected_gt_threshold) ?iT"
  let ?p5 = "Ptr (arr_data n_selected_eq_threshold) ?iT"
  let ?n = "get_shape distance_to_centroid 0"
  note d = select_samples_dispatch [OF call]
  define gt_idx where "gt_idx = filter (\<lambda>i. t < ds ! i) [0..<length ds]"
  define eq_idx where "eq_idx = filter (\<lambda>i. ds ! i = t) [0..<length ds]"
  define n_gt where "n_gt = min n_selected (length gt_idx)"
  define n_eq where "n_eq = min (n_selected - n_gt) (length eq_idx)"
  define g where "g = take n_gt gt_idx"
  define e where "e = take n_eq eq_idx"
  define idx where "idx = map int g @
      take (length old_idx - n_gt - n_eq) (drop n_gt old_idx) @ rev (map int e)"
  define pos where "pos = [0..<n_gt] @ [length old_idx - n_eq..<length old_idx]"
  let ?m1 = "write_ints m ?p3 idx"
  let ?m2 = "write_ints ?m1 ?p4 [int n_gt]"
  let ?m' = "write_ints ?m2 ?p5 [int n_eq]"
  have r1: "read_reals m ?p1 = Some ds" and l1: "length ds = ?n"
    using ds d(5) array_reals_SomeD(2) [of m distance_to_centroid ds]
    by (simp_all add: holds_reals_def get_size_def)
  have r2: "read_reals m ?p2 = Some [t]"
    using t d(2) array_reals_SomeD(2) [of m threshold "[t]"]
    by (simp_all add: holds_reals_def)
  have r3: "read_ints m ?p3 = Some old_idx"
    and l3: "length old_idx = get_shape selected_samples_idx 0"
    and f3: "has_index_type selected_samples_idx"
    using old_idx d(6) array_ints_SomeD [of m selected_samples_idx old_idx]
    by (simp_all add: holds_ints_def get_size_def)
  have r4: "read_ints m ?p4 = Some old_gt" and l4: "length old_gt = 1"
    and f4: "has_index_type n_selected_gt_threshold"
    using old_gt d(3,8) array_ints_SomeD [of m n_selected_gt_threshold old_gt]
    by (simp_all add: holds_ints_def)
  have r5: "read_ints m ?p5 = Some old_eq" and l5: "length old_eq = 1"
    and f5: "has_index_type n_selected_eq_threshold"
    using old_eq d(4,9) array_ints_SomeD [of m n_selected_eq_threshold old_eq]
    by (simp_all add: holds_ints_def)
  have fits: "n_selected \<le> length old_idx"
    using d(12) l3 by simp
  have "select_samples_far_from_centroid_kernel n_selected ?n ?p1 ?p2 ?p3 ?p4 ?p5 m =
      Some ?m'"
    unfolding select_samples_far_from_centroid_kernel_def r1 r2 r3 r4 r5 Let_def
    using l1 l4 l5 fits
    by (simp add: idx_def g_def e_def n_gt_def n_eq_def gt_idx_def eq_idx_def)
  then have run: "on_completion comp_ev m = Some ?m'"
    unfolding d(1) by simp
  have ne: "arr_data selected_samples_idx \<noteq> arr_data n_selected_gt_threshold"
    "arr_data selected_samples_idx \<noteq> arr_data n_selected_eq_threshold"
    "arr_data n_selected_gt_threshold \<noteq> arr_data n_selected_eq_threshold"
    using apart by simp_all
  have a3: "array_ints ?m' selected_samples_idx = Some idx"
    using array_ints_after_write [OF f3, of m idx] ne(1,2)
    by (simp only: array_ints_after_other_write not_False_eq_True)
  have a4: "array_ints ?m' n_selected_gt_threshold = Some [int n_gt]"
    using array_ints_after_write [OF f4, of ?m1 "[int n_gt]"] d(3) ne(3)
    by (simp only: array_ints_after_other_write not_False_eq_True)
  have a5: "array_ints ?m' n_selected_eq_threshold = Some [int n_eq]"
    using array_ints_after_write [OF f5, of ?m2 "[int n_eq]"] d(4)
    by simp
  have lg: "length g = n_gt"
    unfolding g_def n_gt_def by simp
  have le: "length e = n_eq"
    unfolding e_def n_eq_def by simp
  have total: "n_gt + n_eq = n_selected"
    using selected_counts [OF enough]
    unfolding n_gt_def n_eq_def gt_idx_def eq_idx_def .
  have fit: "length g + length e \<le> length old_idx"
    using lg le total fits by simp
  note lay = far_samples_layout [OF fit, unfolded lg le, folded idx_def pos_def]
  have len: "length idx = length old_idx"
    by (rule lay(1))
  have lpos: "length pos = n_selected"
    using lay(2) total by simp
  have frame: "\<forall>p<length idx. p \<notin> set pos \<longrightarrow> idx ! p = old_idx ! p"
    using lay(4) len by simp
  have above: "\<forall>j<n_gt. pos ! j < length idx \<and>
      (\<exists>i<length ds. idx ! (pos ! j) = int i \<and> t < ds ! i)"
  proof (intro allI impI)
    fix j assume j: "j < n_gt"
    then have jg: "j < length (take n_gt (filter (\<lambda>i. t < ds ! i) [0..<length ds]))"
      using lg unfolding g_def gt_idx_def by simp
    from taken_ids [OF jg] have "g ! j < length ds" and "t < ds ! (g ! j)"
      unfolding g_def gt_idx_def by simp_all
    with lay(5) j len
    show "pos ! j < length idx \<and> (\<exists>i<length ds. idx ! (pos ! j) = int i \<and> t < ds ! i)"
      by auto
  qed
  have at: "\<forall>j. n_gt \<le> j \<and> j < n_selected \<longrightarrow> pos ! j < length idx \<and>
      (\<exists>i<length ds. idx ! (pos ! j) = int i \<and> ds ! i = t)"
  proof (intro allI impI)
    fix j assume j: "n_gt \<le> j \<and> j < n_selected"
    let ?k = "n_gt + n_eq - 1 - j"
    from j total have "?k < n_eq" by auto
    then have ke: "?k < length (take n_eq (filter (\<lambda>i. ds ! i = t) [0..<length ds]))"
      using le unfolding e_def eq_idx_def by simp
    from taken_ids [OF ke] have "e ! ?k < length ds" and "ds ! (e ! ?k) = t"
      unfolding e_def eq_idx_def by simp_all
    moreover from lay(6) j total
    have "pos ! j < length old_idx \<and> idx ! (pos ! j) = int (e ! ?k)"
      by simp
    ultimately
    show "pos ! j < length idx \<and> (\<exists>i<length ds. idx ! (pos ! j) = int i \<and> ds ! i = t)"
      using len by auto
  qed
  show ?thesis
    apply (rule exI [of _ ?m'])
    apply (rule exI [of _ idx])
    apply (rule exI [of _ pos])
    apply (rule exI [of _ n_gt])
    apply (rule exI [of _ n_eq])
    apply (intro conjI)
              apply (rule run)
             apply (rule a3)
            apply (rule a4)
           apply (rule a5)
          apply (rule len)
         apply (rule lpos)
        apply (rule lay(3))
       apply (rule frame)
      apply (rule above)
     apply (rule at)
    apply (rule total)
    done
qed

theorem select_samples_far_from_centroid_fills_n_selected_witness:
  "\<exists>m' idx pos n_gt n_eq.
    on_completion
      (Kernel_event 0 (Select_samples_far_from_centroid_kernel C_float C_int32 3 5 64
         (Ptr 0 C_float) (Ptr 1 C_float) (Ptr 2 C_int32) (Ptr 3 C_int32) (Ptr 4 C_int32)) [])
      [0 \<mapsto> Real_buffer C_float [1, 5, 2, 5, 7], 1 \<mapsto> Real_buffer C_float [5],
       2 \<mapsto> Int_buffer C_int32 [9, 9, 9, 9, 9], 3 \<mapsto> Int_buffer C_int32 [0],
       4 \<mapsto> Int_buffer C_int32 [0]] = Some m' \<and>
    array_ints m' (contiguous_array 2 [5] UAR_INT32 0) = Some idx \<and>
    array_ints m' (contiguous_array 3 [1] UAR_INT32 0) = Some [int n_gt] \<and>
    array_ints m' (contiguous_array 4 [1] UAR_INT32 0) = Some [int n_eq] \<and>
    length idx = length [9, 9, 9, 9, 9 :: int] \<and>
    length pos = 3 \<and> sorted_wrt (<) pos \<and>
    (\<forall>p<length idx. p \<notin> set pos \<longrightarrow> idx ! p = [9, 9, 9, 9, 9] ! p) \<and>
    (\<forall>j<n_gt. pos ! j < length idx \<and>
       (\<exists>i<length [1, 5, 2, 5, 7 :: real].
          idx ! (pos ! j) = int i \<and> 5 < [1, 5, 2, 5, 7 :: real] ! i)) \<and>
    (\<forall>j. n_gt \<le> j \<and> j < 3 \<longrightarrow> pos ! j < length idx \<and>
       (\<exists>i<length [1, 5, 2, 5, 7 :: real].
          idx ! (pos ! j) = int i \<and> [1, 5, 2, 5, 7 :: real] ! i = 5)) \<and>
    n_gt + n_eq = 3"
proof -
  let ?a1 = "contiguous_array 0 [5] UAR_FLOAT 0"
  let ?a2 = "contiguous_array 1 [1] UAR_FLOAT 0"
  let ?a3 = "contiguous_array 2 [5] UAR_INT32 0"
  let ?a4 = "contiguous_array 3 [1] UAR_INT32 0"
  let ?a5 = "contiguous_array 4 [1] UAR_INT32 0"
  let ?m = "[0 \<mapsto> Real_buffer C_float [1, 5, 2, 5, 7], 1 \<mapsto> Real_buffer C_float [5],
       2 \<mapsto> Int_buffer C_int32 [9, 9, 9, 9, 9], 3 \<mapsto> Int_buffer C_int32 [0],
       4 \<mapsto> Int_buffer C_int32 [0]]"
  let ?k = "Kernel_event 0 (Select_samples_far_from_centroid_kernel C_float C_int32 3 5 64
         (Ptr 0 C_float) (Ptr 1 C_float) (Ptr 2 C_int32) (Ptr 3 C_int32) (Ptr 4 C_int32)) []"
  have call: "py_select_samples_far_from_centroid 3 ?a1 ?a2 ?a3 ?a4 ?a5 0 [] =
      Inr (Host_task_event 0 [?a1, ?a2, ?a3, ?a4, ?a5] [?k], ?k)"
    by (simp add: py_select_samples_far_from_centroid_def Let_def contiguous_array_simps
        keep_args_alive_def)
  have h1: "holds_reals ?m ?a1 [1, 5, 2, 5, 7]" and h2: "holds_reals ?m ?a2 [5]"
    by (simp_all add: holds_reals_def array_reals_def contiguous_array_simps)
  have h3: "holds_ints ?m ?a3 [9, 9, 9, 9, 9]" and h4: "holds_ints ?m ?a4 [0]"
    and h5: "holds_ints ?m ?a5 [0]"
    by (simp_all add: holds_ints_def array_ints_def contiguous_array_simps)
  have apart: "distinct [arr_data ?a3, arr_data ?a4, arr_data ?a5]"
    by (simp add: contiguous_array_simps)
  have enough: "3 \<le> length (filter (\<lambda>d. 5 \<le> d) [1, 5, 2, 5, 7 :: real])"
    by simp
  show ?thesis
    by (rule select_samples_far_from_centroid_fills_n_selected
        [OF call h1 h2 h3 h4 h5 apart enough])
qed

text \<open>
  The same call, evaluated: sample 4 is above the threshold 5 and is written to the
  first entry; samples 1 and 3 are at the threshold and are written to the last entry
  and the one before it.
\<close>

lemma select_samples_far_from_centroid_example:
  "on_completion
      (Kernel_event 0 (Select_samples_far_from_centroid_kernel C_float C_int32 3 5 64
         (Ptr 0 C_float) (Ptr 1 C_float) (Ptr 2 C_int32) (Ptr 3 C_int32) (Ptr 4 C_int32)) [])
      [0 \<mapsto> Real_buffer C_float [1, 5, 2, 5, 7], 1 \<mapsto> Real_buffer C_float [5],
       2 \<mapsto> Int_buffer C_int32 [9, 9, 9, 9, 9], 3 \<mapsto> Int_buffer C_int32 [0],
       4 \<mapsto> Int_buffer C_int32 [0]] =
   Some [0 \<mapsto> Real_buffer C_float [1, 5, 2, 5, 7], 1 \<mapsto> Real_buffer C_float [5],
       2 \<mapsto> Int_buffer C_int32 [4, 9, 9, 3, 1], 3 \<mapsto> Int_buffer C_int32 [1],
       4 \<mapsto> Int_buffer C_int32 [2]]"
proof -
  have u: "[0..<5] = [0, 1, 2, 3, 4 :: nat]"
    by code_simp
  have "select_samples_far_from_centroid_kernel 3 5
      (Ptr 0 C_float) (Ptr 1 C_float) (Ptr 2 C_int32) (Ptr 3 C_int32) (Ptr 4 C_int32)
      [0 \<mapsto> Real_buffer C_float [1, 5, 2, 5, 7], 1 \<mapsto> Real_buffer C_float [5],
       2 \<mapsto> Int_buffer C_int32 [9, 9, 9, 9, 9], 3 \<mapsto> Int_buffer C_int32 [0],
       4 \<mapsto> Int_buffer C_int32 [0]] =
    Some [0 \<mapsto> Real_buffer C_float [1, 5, 2, 5, 7], 1 \<mapsto> Real_buffer C_float [5],
       2 \<mapsto> Int_buffer C_int32 [4, 9, 9, 3, 1], 3 \<mapsto> Int_buffer C_int32 [1],
       4 \<mapsto> Int_buffer C_int32 [2]]"
    unfolding select_samples_far_from_centroid_kernel_def Let_def
    by (simp add: u)
  then show ?thesis by simp
qed

text \<open>
  Claim C4 as stated, for every threshold value, fails: with the distances \<open>[1, 2]\<close>,
  the threshold \<open>5\<close> and \<open>n_selected = 1\<close> the call is accepted, no distance reaches
  the threshold, so there is no index to write (the output keeps \<open>[9, 9]\<close>) and the two
  counts are both \<open>0\<close>: they add up to \<open>0\<close>, not to \<open>1\<close>.
\<close>

theorem select_samples_far_from_centroid_threshold_too_high:
  "py_select_samples_far_from_centroid 1 (contiguous_array 0 [2] UAR_FLOAT 0)
     (contiguous_array 1 [1] UAR_FLOAT 0) (contiguous_array 2 [2] UAR_INT32 0)
     (contiguous_array 3 [1] UAR_INT32 0) (contiguous_array 4 [1] UAR_INT32 0) 0 [] =
   Inr (Host_task_event 0
          [contiguous_array 0 [2] UAR_FLOAT 0, contiguous_array 1 [1] UAR_FLOAT 0,
           contiguous_array 2 [2] UAR_INT32 0, contiguous_array 3 [1] UAR_INT32 0,
           contiguous_array 4 [1] UAR_INT32 0]
          [Kernel_event 0 (Select_samples_far_from_centroid_kernel C_float C_int32 1 2 64
             (Ptr 0 C_float) (Ptr 1 C_float) (Ptr 2 C_int32) (Ptr 3 C_int32)
             (Ptr 4 C_int32)) []],
        Kernel_event 0 (Select_samples_far_from_centroid_kernel C_float C_int32 1 2 64
          (Ptr 0 C_float) (Ptr 1 C_float) (Ptr 2 C_int32) (Ptr 3 C_int32)
          (Ptr 4 C_int32)) []) \<and>
   on_completion
     (Kernel_event 0 (Select_samples_far_from_centroid_kernel C_float C_int32 1 2 64
        (Ptr 0 C_float) (Ptr 1 C_float) (Ptr 2 C_int32) (Ptr 3 C_int32)
        (Ptr 4 C_int32)) [])
     [0 \<mapsto> Real_buffer C_float [1, 2], 1 \<mapsto> Real_buffer C_float [5],
      2 \<mapsto> Int_buffer C_int32 [9, 9], 3 \<mapsto> Int_buffer C_int32 [7],
      4 \<mapsto> Int_buffer C_int32 [7]] =
   Some [0 \<mapsto> Real_buffer C_float [1, 2], 1 \<mapsto> Real_buffer C_float [5],
      2 \<mapsto> Int_buffer C_int32 [9, 9], 3 \<mapsto> Int_buffer C_int32 [0],
      4 \<mapsto> Int_buffer C_int32 [0]] \<and>
   \<not> (\<exists>n_gt n_eq.
      array_ints [0 \<mapsto> Real_buffer C_float [1, 2], 1 \<mapsto> Real_buffer C_float [5],
          2 \<mapsto> Int_buffer C_int32 [9, 9], 3 \<mapsto> Int_buffer C_int32 [0],
          4 \<mapsto> Int_buffer C_int32 [0]] (contiguous_array 3 [1] UAR_INT32 0) =
        Some [int n_gt] \<and>
      array_ints [0 \<mapsto> Real_buffer C_float [1, 2], 1 \<mapsto> Real_buffer C_float [5],
          2 \<mapsto> Int_buffer C_int32 [9, 9], 3 \<mapsto> Int_buffer C_int32 [0],
          4 \<mapsto> Int_buffer C_int32 [0]] (contiguous_array 4 [1] UAR_INT32 0) =
        Some [int n_eq] \<and>
      n_gt + n_eq = 1)"
proof -
  have u: "[0..<2] = [0, 1 :: nat]"
    by code_simp
  have run: "select_samples_far_from_centroid_kernel 1 2
      (Ptr 0 C_float) (Ptr 1 C_float) (Ptr 2 C_int32) (Ptr 3 C_int32) (Ptr 4 C_int32)
      [0 \<mapsto> Real_buffer C_float [1, 2], 1 \<mapsto> Real_buffer C_float [5],
       2 \<mapsto> Int_buffer C_int32 [9, 9], 3 \<mapsto> Int_buffer C_int32 [7],
       4 \<mapsto> Int_buffer C_int32 [7]] =
    Some [0 \<mapsto> Real_buffer C_float [1, 2], 1 \<mapsto> Real_buffer C_float [5],
       2 \<mapsto> Int_buffer C_int32 [9, 9], 3 \<mapsto> Int_buffer C_int32 [0],
       4 \<mapsto> Int_buffer C_int32 [0]]"
    unfolding select_samples_far_from_centroid_kernel_def Let_def
    by (simp add: u)
  show ?thesis
    using run
    by (simp add: py_select_samples_far_from_centroid_def Let_def contiguous_array_simps
        keep_args_alive_def array_ints_def)
qed

subsection \<open>Threshold discovery on single-precision data\<close>

lemma fold_max_ge:
  fixes x :: real
  shows "x \<le> fold max xs x" and "\<forall>y\<in>set xs. y \<le> fold max xs x"
proof -
  have "x \<le> fold max xs x \<and> (\<forall>y\<in>set xs. y \<le> fold max xs x)"
  proof (induction xs arbitrary: x)
    case Nil
    show ?case by simp
  next
    case (Cons a xs)
    from Cons.IH [of "max a x"] show ?case by auto
  qed
  then show "x \<le> fold max xs x" and "\<forall>y\<in>set xs. y \<le> fold max xs x"
    by simp_all
qed

lemma fold_max_mem:
  fixes x :: real
  shows "fold max xs x \<in> set (x # xs)"
proof (induction xs arbitrary: x)
  case Nil
  show ?case by simp
next
  case (Cons a xs)
  from Cons.IH [of "max a x"] show ?case by (auto simp add: max_def split: if_splits)
qed

lemma length_filter_remove1:
  "a \<in> set xs \<Longrightarrow>
   length (filter P (remove1 a xs)) = length (filter P xs) - (if P a then 1 else 0)"
proof (induction xs)
  case Nil
  then show ?case by simp
next
  case (Cons x xs)
  show ?case
  proof (cases "x = a")
    case True
    then show ?thesis by simp
  next
    case False
    with Cons.prems have a: "a \<in> set xs" by simp
    have pos: "0 < length (filter P xs)" if "P a"
      using a that by (auto simp add: filter_empty_conv)
    from Cons.IH [OF a] pos show ?thesis
      by (auto simp add: False)
  qed
qed

text \<open>
  The value selected is the order statistic: it occurs in the data, fewer than \<open>k\<close>
  elements are above it and at least \<open>k\<close> elements reach it.
\<close>

lemma kth_largest_order_statistic:
  assumes "1 \<le> k" and "k \<le> length xs"
  shows "\<exists>v. kth_largest k xs = Some v \<and> v \<in> set xs \<and>
    length (filter (\<lambda>x. v < x) xs) < k \<and> k \<le> length (filter (\<lambda>x. v \<le> x) xs)"
  using assms
proof (induction k xs rule: kth_largest.induct)
  case (1 k)
  then show ?case by simp
next
  case (2 x xs)
  then show ?case by simp
next
  case (3 x xs)
  let ?mx = "fold max xs x"
  have "filter (\<lambda>y. ?mx < y) (x # xs) = []"
    using fold_max_ge [where x = x and xs = xs] by (auto simp add: filter_empty_conv not_less)
  moreover have "?mx \<in> set (filter (\<lambda>y. ?mx \<le> y) (x # xs))"
    using fold_max_mem [of xs x] by auto
  then have "1 \<le> length (filter (\<lambda>y. ?mx \<le> y) (x # xs))"
    by (metis One_nat_def Suc_leI length_pos_if_in_set)
  ultimately show ?case
    using fold_max_mem [of xs x] by simp
next
  case (4 k x xs)
  let ?mx = "fold max xs x"
  let ?ys = "remove1 ?mx (x # xs)"
  have mem: "?mx \<in> set (x # xs)" by (rule fold_max_mem)
  then have "length ?ys = length (x # xs) - 1"
    by (simp only: length_remove1 if_True)
  then have len: "length ?ys = length xs"
    by simp
  with "4.prems" have "1 \<le> Suc k" and "Suc k \<le> length ?ys" by simp_all
  from "4.IH" [OF this] obtain v where v: "kth_largest (Suc k) ?ys = Some v"
    and vin: "v \<in> set ?ys"
    and above: "length (filter (\<lambda>y. v < y) ?ys) < Suc k"
    and reach: "Suc k \<le> length (filter (\<lambda>y. v \<le> y) ?ys)"
    by blast
  have vin': "v \<in> set (x # xs)"
    using vin set_remove1_subset [of ?mx "x # xs"] by blast
  then have vle: "v \<le> ?mx"
    using fold_max_ge [where x = x and xs = xs] by auto
  have "length (filter (\<lambda>y. v \<le> y) ?ys) = length (filter (\<lambda>y. v \<le> y) (x # xs)) - 1"
    using length_filter_remove1 [OF mem, of "\<lambda>y. v \<le> y"] vle by simp
  with reach have r: "Suc (Suc k) \<le> length (filter (\<lambda>y. v \<le> y) (x # xs))"
    by simp
  have "length (filter (\<lambda>y. v < y) ?ys) =
      length (filter (\<lambda>y. v < y) (x # xs)) - (if v < ?mx then 1 else 0)"
    by (rule length_filter_remove1 [OF mem])
  with above have a: "length (filter (\<lambda>y. v < y) (x # xs)) < Suc (Suc k)"
    by (simp split: if_splits)
  from v vin' a r show ?case by simp
qed

text \<open>
  On single-precision data the accepted call does leave the order statistic in the
  threshold: the kernel is instantiated at the arrays' own element type.
\<close>

lemma compute_threshold_on_float_data_order_statistic:
  assumes "get_ndim data = 1" and "is_c_contiguous data" and "is_c_contiguous threshold"
    and "get_size threshold = 1"
    and "get_typenum data = UAR_FLOAT" and "get_typenum threshold = UAR_FLOAT"
    and "get_queue data = q" and "get_queue threshold = q"
    and "1 \<le> topk" and "topk \<le> length xs"
    and "holds_reals m data xs" and "holds_reals m threshold old"
  shows "\<exists>ht_ev comp_ev m' v.
    py_compute_threshold data topk threshold q depends = Inr (ht_ev, comp_ev) \<and>
    on_completion comp_ev m = Some m' \<and> array_reals m' threshold = Some [v] \<and>
    v \<in> set xs \<and> length (filter (\<lambda>x. v < x) xs) < topk \<and>
    topk \<le> length (filter (\<lambda>x. v \<le> x) xs)"
proof -
  from kth_largest_order_statistic [OF assms(9,10)] obtain v
    where v: "kth_largest topk xs = Some v" "v \<in> set xs"
      "length (filter (\<lambda>x. v < x) xs) < topk" "topk \<le> length (filter (\<lambda>x. v \<le> x) xs)"
    by blast
  have one: "length ys = 1 \<Longrightarrow> ys = [ys ! 0]" for ys :: "nat list"
    by (cases ys) auto
  have shape: "arr_shape data = [get_shape data 0]"
    using one [of "arr_shape data"] assms(1) by (simp add: get_ndim_def get_shape_def)
  have rd: "read_reals m (get_data C_float data) = Some xs"
    and ld: "length xs = get_shape data 0"
    using assms(5,11) shape
    by (simp_all add: holds_reals_def array_reals_def get_size_def)
  have rt: "read_reals m (get_data C_float threshold) = Some old" and lt: "length old = 1"
    using assms(4,6,12) by (simp_all add: holds_reals_def array_reals_def)
  let ?k = "Compute_threshold_kernel C_float (get_shape data 0) (get_data C_float data)
      topk (get_data C_float threshold)"
  let ?m' = "write_reals m (get_data C_float threshold) [v]"
  have call: "py_compute_threshold data topk threshold q depends =
      Inr (keep_args_alive q [data, threshold] [Kernel_event q ?k depends],
           Kernel_event q ?k depends)"
    using assms(1-9) unfolding py_compute_threshold_def Let_def by auto
  have run: "on_completion (Kernel_event q ?k depends) m = Some ?m'"
    using rd ld rt lt v(1) by (simp add: compute_threshold_kernel_def)
  have out: "array_reals ?m' threshold = Some [v]"
    using assms(6) by (simp add: array_reals_def get_data_def)
  from call run out v(2-4) show ?thesis by blast
qed

lemma compute_threshold_on_float_data_example:
  "on_completion
     (Kernel_event 0 (Compute_threshold_kernel C_float 5 (Ptr 0 C_float) 2 (Ptr 1 C_float)) [])
     [0 \<mapsto> Real_buffer C_float [1, 5, 2, 5, 7], 1 \<mapsto> Real_buffer C_float [0]] =
   Some [0 \<mapsto> Real_buffer C_float [1, 5, 2, 5, 7], 1 \<mapsto> Real_buffer C_float [5]]"
  by (simp add: compute_threshold_kernel_def numeral_2_eq_2)

end
